theory Spec2Isabelle
  imports Complex_Main "HOL-Library.Word" "HOL-Library.Multiset"
begin

unbundle bit_operations_syntax

section \<open>The OpenGL video filter chain of libmythtv (openglvideo.cpp)\<close>

text \<open>
  Handles of GPU resources (\<open>GLuint\<close>) are natural numbers, \<open>0\<close> being the null handle.
  Strings (\<open>QString\<close>) are lists of 8-bit characters. Sizes of vectors are natural
  numbers; the C++ \<open>int\<close> fields that are only compared are integers.
\<close>

subsection \<open>Declarations taken from headers\<close>

datatype OpenGLFilterType = kGLFilterNone | kGLFilterYUV2RGB | kGLFilterResize | kGLFilterBicubic

datatype DisplayBuffer = kDefaultBuffer | kFrameBufferObject

datatype FrameScanType =
  kScan_Ignore | kScan_Detect | kScan_Interlaced | kScan_Intr2ndField | kScan_Progressive

datatype VideoFrameType = FMT_YV12 | FMT_OTHER

record QSize =
  width :: int
  height :: int

record QRect =
  rect_left :: int
  rect_top :: int
  rect_width :: int
  rect_height :: int

text \<open>
  The feature bits of \<open>GLFeatures\<close>, the integer value of the enumerator
  \<open>kScan_Interlaced\<close> and the decimal text that \<open>QString::setNum\<close> produces for the
  floating-point constants of a fragment program are declared outside openglvideo.cpp.
  They are parameters of the development: every function that reads one of them takes
  the record \<open>D\<close>. \<open>setNum_text D rects tex_size fb_size k\<close> is the text substituted for
  placeholder \<open>%k\<close> (\<open>k\<close> from 2 to 7) given \<open>textureRects\<close>, \<open>inputTextureSize\<close> and
  the frame buffer size.
\<close>

record Decls =
  kGLExtRect :: "32 word"
  kGLExtFragProg :: "32 word"
  kGLExtFBufObj :: "32 word"
  kGLExtPBufObj :: "32 word"
  kGLNVFence :: "32 word"
  kGLAppleFence :: "32 word"
  kGLMesaYCbCr :: "32 word"
  kGLMaxFeat :: "32 word"
  kScan_Interlaced_value :: int
  setNum_text :: "bool \<Rightarrow> QSize \<Rightarrow> QSize \<Rightarrow> nat \<Rightarrow> string"


subsection \<open>QString operations\<close>

text \<open>\<open>QString::split(sep)\<close> with the default \<open>KeepEmptyParts\<close>.\<close>

fun split_sep :: "char \<Rightarrow> string \<Rightarrow> string list" where
  "split_sep c [] = [[]]"
| "split_sep c (x # xs) =
     (if x = c then [] # split_sep c xs
      else (case split_sep c xs of [] \<Rightarrow> [[x]] | y # ys \<Rightarrow> (x # y) # ys))"

text \<open>\<open>section(sep, 0, 0)\<close>: the text before the first separator.\<close>

definition section_0_0 :: "char \<Rightarrow> string \<Rightarrow> string" where
  "section_0_0 c s = takeWhile (\<lambda>x. x \<noteq> c) s"

text \<open>\<open>section(sep, 1)\<close>: the text after the first separator, empty when there is none.\<close>

definition section_1 :: "char \<Rightarrow> string \<Rightarrow> string" where
  "section_1 c s = drop 1 (dropWhile (\<lambda>x. x \<noteq> c) s)"

definition toLower_char :: "char \<Rightarrow> char" where
  "toLower_char c =
     (let n = (of_char c :: nat)
      in if (65 \<le> n \<and> n \<le> 90) \<or> (192 \<le> n \<and> n \<le> 222 \<and> n \<noteq> 215)
         then char_of (n + 32) else c)"

definition toLower :: "string \<Rightarrow> string" where
  "toLower s = map toLower_char s"

fun starts_with :: "string \<Rightarrow> string \<Rightarrow> bool" where
  "starts_with s [] = True"
| "starts_with [] (p # ps) = False"
| "starts_with (c # cs) (p # ps) = (c = p \<and> starts_with cs ps)"

text \<open>\<open>QString::contains(sub)\<close>.\<close>

fun contains :: "string \<Rightarrow> string \<Rightarrow> bool" where
  "contains [] sub = (sub = [])"
| "contains (c # cs) sub = (starts_with (c # cs) sub \<or> contains cs sub)"

subsection \<open>OpenGLVideo::ParseOptions and the feature mask of Init\<close>

text \<open>
  The body of the loop over the comma-separated tokens. The first token named
  \<open>opengloptions\<close> ends the loop (\<open>return ret\<close>); \<open>ret\<close> is a \<open>uint\<close>, so each
  subtraction wraps.
\<close>

fun ParseOptions_loop :: "Decls \<Rightarrow> string list \<Rightarrow> 32 word \<Rightarrow> 32 word" where
  "ParseOptions_loop D [] ret = ret"
| "ParseOptions_loop D (i # rest) ret =
     (let name = toLower (section_0_0 CHR ''='' i);
          opts = toLower (section_1 CHR ''='' i)
      in if name = ''opengloptions'' then
           (let r1 = (if contains opts ''nofence''
                      then (ret - kGLAppleFence D) - kGLNVFence D else ret);
                r2 = (if contains opts ''nopbo'' then r1 - kGLExtPBufObj D else r1);
                r3 = (if contains opts ''nofbo'' then r2 - kGLExtFBufObj D else r2);
                r4 = (if contains opts ''nofrag'' then r3 - kGLExtFragProg D else r3);
                r5 = (if contains opts ''norect'' then r4 - kGLExtRect D else r4);
                r6 = (if contains opts ''noycbcr'' then r5 - kGLMesaYCbCr D else r5)
            in r6)
         else ParseOptions_loop D rest ret)"

definition ParseOptions :: "Decls \<Rightarrow> string \<Rightarrow> 32 word" where
  "ParseOptions D options =
     (let ret = kGLMaxFeat D - 1;
          list = split_sep CHR '','' options
      in if list = [] then ret else ParseOptions_loop D list ret)"

text \<open>
  Init, line 170: \<open>gl_features = ParseOptions(options) & gl_context->GetFeatures()\<close>;
  \<open>hw\<close> is the mask the render context reports.
\<close>

definition Init_gl_features :: "Decls \<Rightarrow> string \<Rightarrow> 32 word \<Rightarrow> 32 word" where
  "Init_gl_features D options hw = ParseOptions D options AND hw"

subsection \<open>The render context\<close>

datatype GLfilt = GL_LINEAR | GL_NEAREST

datatype GLwrap = GL_CLAMP_TO_EDGE

text \<open>
  What a texture holds after an upload: the conversion that produced the bytes and the
  pixel data of the frame it was made from.
\<close>

datatype TexData = Converted_BGRA nat | Converted_UYVY422 nat | Packed_interlaced nat | Packed_alpha nat

text \<open>
  Modelled from the spec: the graphics context MythRenderOpenGL (mythrender_opengl.cpp
  and its header are not part of the sources; section 6 of the spec lists its interface:
  create and delete texture, frame buffer and fragment program, query the mapped buffer
  of a texture, update a texture from a buffer, report the feature mask). The context
  keeps the live handles, the filter setting and the contents of each texture. Whether
  the \<open>n\<close>-th creation request succeeds is \<open>create_ok n\<close>, whether a texture has a
  mapped buffer is \<open>buffer_ok\<close>: a failed creation returns the null handle.
\<close>

record MythRenderOpenGL =
  hw_features :: "32 word"
  clock :: nat
  create_ok :: "nat \<Rightarrow> bool"
  buffer_ok :: "nat \<Rightarrow> bool"
  live_textures :: "nat list"
  live_framebuffers :: "nat list"
  live_programs :: "(nat \<times> string) list"
  tex_filter :: "nat \<Rightarrow> (GLfilt \<times> GLwrap) option"
  tex_data :: "nat \<Rightarrow> TexData option"

text \<open>
  Modelled from the spec: the handle a creation request of MythRenderOpenGL returns,
  fresh and non-null on success, null on failure.
\<close>

definition new_handle :: "MythRenderOpenGL \<Rightarrow> nat \<times> MythRenderOpenGL" where
  "new_handle g =
     ((if create_ok g (clock g) then Suc (clock g) else 0), g\<lparr>clock := Suc (clock g)\<rparr>)"

text \<open>Modelled from the spec: MythRenderOpenGL::CreateTexture.\<close>

definition CreateTexture :: "MythRenderOpenGL \<Rightarrow> nat \<times> MythRenderOpenGL" where
  "CreateTexture g =
     (case new_handle g of (h, g1) \<Rightarrow>
        (h, if h \<noteq> 0 then g1\<lparr>live_textures := h # live_textures g1\<rparr> else g1))"

text \<open>Modelled from the spec: MythRenderOpenGL::CreateHelperTexture.\<close>

definition CreateHelperTexture :: "MythRenderOpenGL \<Rightarrow> nat \<times> MythRenderOpenGL" where
  "CreateHelperTexture g = CreateTexture g"

text \<open>
  Modelled from the spec: MythRenderOpenGL::CreateFrameBuffer, which attaches a new
  frame buffer to the texture and fails for the null texture.
\<close>

definition CreateFrameBuffer :: "MythRenderOpenGL \<Rightarrow> nat \<Rightarrow> bool \<times> nat \<times> MythRenderOpenGL" where
  "CreateFrameBuffer g tex =
     (if tex = 0 then (False, 0, g)
      else (case new_handle g of (h, g1) \<Rightarrow>
        if h \<noteq> 0 then (True, h, g1\<lparr>live_framebuffers := h # live_framebuffers g1\<rparr>)
        else (False, 0, g1)))"

text \<open>Modelled from the spec: MythRenderOpenGL::CreateFragmentProgram.\<close>

definition CreateFragmentProgram ::
  "MythRenderOpenGL \<Rightarrow> string \<Rightarrow> bool \<times> nat \<times> MythRenderOpenGL" where
  "CreateFragmentProgram g program =
     (case new_handle g of (h, g1) \<Rightarrow>
        if h \<noteq> 0 then (True, h, g1\<lparr>live_programs := (h, program) # live_programs g1\<rparr>)
        else (False, 0, g1))"

text \<open>Modelled from the spec: MythRenderOpenGL::DeleteTexture.\<close>

definition DeleteTexture :: "MythRenderOpenGL \<Rightarrow> nat \<Rightarrow> MythRenderOpenGL" where
  "DeleteTexture g h =
     g\<lparr>live_textures := removeAll h (live_textures g),
       tex_filter := (tex_filter g)(h := None),
       tex_data := (tex_data g)(h := None)\<rparr>"

text \<open>Modelled from the spec: MythRenderOpenGL::DeleteFrameBuffer.\<close>

definition DeleteFrameBuffer :: "MythRenderOpenGL \<Rightarrow> nat \<Rightarrow> MythRenderOpenGL" where
  "DeleteFrameBuffer g h = g\<lparr>live_framebuffers := removeAll h (live_framebuffers g)\<rparr>"

text \<open>Modelled from the spec: MythRenderOpenGL::DeleteFragmentProgram.\<close>

definition DeleteFragmentProgram :: "MythRenderOpenGL \<Rightarrow> nat \<Rightarrow> MythRenderOpenGL" where
  "DeleteFragmentProgram g h =
     g\<lparr>live_programs := filter (\<lambda>p. fst p \<noteq> h) (live_programs g)\<rparr>"

text \<open>Modelled from the spec: MythRenderOpenGL::SetTextureFilters.\<close>

definition gl_SetTextureFilters ::
  "MythRenderOpenGL \<Rightarrow> nat \<Rightarrow> GLfilt \<Rightarrow> GLwrap \<Rightarrow> MythRenderOpenGL" where
  "gl_SetTextureFilters g h filt wrap = g\<lparr>tex_filter := (tex_filter g)(h \<mapsto> (filt, wrap))\<rparr>"

text \<open>Modelled from the spec: MythRenderOpenGL::UpdateTexture.\<close>

definition UpdateTexture :: "MythRenderOpenGL \<Rightarrow> nat \<Rightarrow> TexData \<Rightarrow> MythRenderOpenGL" where
  "UpdateTexture g h d = g\<lparr>tex_data := (tex_data g)(h \<mapsto> d)\<rparr>"

text \<open>
  Modelled from the spec: MythRenderOpenGL::GetTextureSize, the allocated size of a
  texture (section 4.3: the exact size with rectangle textures, else both dimensions
  rounded up to a power of two of at least 64).
\<close>

function round_up_pow2 :: "int \<Rightarrow> int \<Rightarrow> int" where
  "round_up_pow2 w n = (if 0 < w \<and> w < n then round_up_pow2 (w * 2) n else w)"
  by pat_completeness auto
termination
  by (relation "measure (\<lambda>(w, n). nat (n - w))") auto

definition gl_GetTextureSize :: "bool \<Rightarrow> QSize \<Rightarrow> QSize" where
  "gl_GetTextureSize rects sz =
     (if rects then sz
      else \<lparr> width = round_up_pow2 64 (width sz), height = round_up_pow2 64 (height sz) \<rparr>)"

subsection \<open>OpenGLFilter and the state of OpenGLVideo\<close>

record OpenGLFilter =
  fragmentPrograms :: "nat list"
  numInputs :: "32 word"
  frameBuffers :: "nat list"
  frameBufferTextures :: "nat list"
  outputBuffer :: DisplayBuffer

text \<open>
  \<open>glfilt_map_t\<close> is \<open>std::map<OpenGLFilterType, OpenGLFilter*>\<close>: a key is absent
  (\<open>None\<close>), mapped to the null pointer (\<open>Some None\<close>) or to a filter.
\<close>

type_synonym glfilt_map_t = "OpenGLFilterType \<Rightarrow> OpenGLFilter option option"

record OpenGLVideo =
  gl_context :: MythRenderOpenGL
  video_dim :: QSize
  actual_video_dim :: QSize
  display_video_rect :: QRect
  video_rect :: QRect
  softwareDeinterlacer :: string
  hardwareDeinterlacer :: string
  hardwareDeinterlacing :: bool
  inputTextureSize :: QSize
  inputUpdated :: bool
  refsNeeded :: int
  textureRects :: bool
  helperTexture :: nat
  defaultUpsize :: OpenGLFilterType
  gl_features :: "32 word"
  using_ycbcrtex :: bool
  using_hardwaretex :: bool
  inputTextures :: "nat list"
  referenceTextures :: "nat list"
  filters :: glfilt_map_t

text \<open>
  Modelled from the spec: the order of the enumerators of OpenGLFilterType
  (openglvideo.h is not part of the sources), which is the iteration order of the map
  and so the pipeline order: colourspace conversion first, then resize or bicubic.
\<close>

definition filter_order :: "OpenGLFilterType list" where
  "filter_order = [kGLFilterNone, kGLFilterYUV2RGB, kGLFilterResize, kGLFilterBicubic]"

text \<open>The keys of the map, from \<open>begin()\<close> to \<open>end()\<close>; \<open>count\<close>, \<open>size\<close> and \<open>erase\<close>.\<close>

definition map_keys :: "glfilt_map_t \<Rightarrow> OpenGLFilterType list" where
  "map_keys m = filter (\<lambda>k. m k \<noteq> None) filter_order"

definition count_key :: "glfilt_map_t \<Rightarrow> OpenGLFilterType \<Rightarrow> bool" where
  "count_key m k = (m k \<noteq> None)"

definition map_size :: "glfilt_map_t \<Rightarrow> nat" where
  "map_size m = length (map_keys m)"

definition erase :: "OpenGLFilterType \<Rightarrow> OpenGLVideo \<Rightarrow> OpenGLVideo" where
  "erase k s = s\<lparr>filters := (filters s)(k := None)\<rparr>"

text \<open>
  \<open>it->second->\<close> and \<open>filters[k]->\<close>: the filter behind the pointer, \<open>None\<close> where the
  program dereferences a null pointer (or a key that is absent).
\<close>

definition deref :: "glfilt_map_t \<Rightarrow> OpenGLFilterType \<Rightarrow> OpenGLFilter option" where
  "deref m k = (case m k of Some (Some f) \<Rightarrow> Some f | _ \<Rightarrow> None)"

definition put_filter :: "OpenGLFilterType \<Rightarrow> OpenGLFilter \<Rightarrow> OpenGLVideo \<Rightarrow> OpenGLVideo" where
  "put_filter k f s = s\<lparr>filters := (filters s)(k \<mapsto> Some f)\<rparr>"

definition has_feature :: "OpenGLVideo \<Rightarrow> 32 word \<Rightarrow> bool" where
  "has_feature s b = (gl_features s AND b \<noteq> 0)"

subsection \<open>Textures and frame buffers of a stage\<close>

text \<open>\<open>DeleteTextures\<close> and \<open>SetTextureFilters\<close> loop over a vector of handles.\<close>

fun DeleteTextures_loop :: "nat list \<Rightarrow> MythRenderOpenGL \<Rightarrow> MythRenderOpenGL" where
  "DeleteTextures_loop [] g = g"
| "DeleteTextures_loop (t # ts) g = DeleteTextures_loop ts (DeleteTexture g t)"

fun DeleteFrameBuffers_loop :: "nat list \<Rightarrow> MythRenderOpenGL \<Rightarrow> MythRenderOpenGL" where
  "DeleteFrameBuffers_loop [] g = g"
| "DeleteFrameBuffers_loop (t # ts) g = DeleteFrameBuffers_loop ts (DeleteFrameBuffer g t)"

fun DeleteFragmentPrograms_loop :: "nat list \<Rightarrow> MythRenderOpenGL \<Rightarrow> MythRenderOpenGL" where
  "DeleteFragmentPrograms_loop [] g = g"
| "DeleteFragmentPrograms_loop (t # ts) g =
     DeleteFragmentPrograms_loop ts (DeleteFragmentProgram g t)"

fun SetTextureFilters :: "nat list \<Rightarrow> GLfilt \<Rightarrow> GLwrap \<Rightarrow> MythRenderOpenGL \<Rightarrow> MythRenderOpenGL" where
  "SetTextureFilters [] filt wrap g = g"
| "SetTextureFilters (t # ts) filt wrap g =
     SetTextureFilters ts filt wrap (gl_SetTextureFilters g t filt wrap)"

text \<open>
  \<open>AddFrameBuffer\<close>: refused without frame buffer objects; otherwise a texture is created
  and a frame buffer attached to it, the texture being deleted again when that fails.
\<close>

definition AddFrameBuffer :: "Decls \<Rightarrow> OpenGLVideo \<Rightarrow> bool \<times> nat \<times> nat \<times> OpenGLVideo" where
  "AddFrameBuffer D s =
     (if \<not> has_feature s (kGLExtFBufObj D) then (False, 0, 0, s)
      else (case CreateTexture (gl_context s) of (texture, g1) \<Rightarrow>
        (case CreateFrameBuffer g1 texture of (ok, framebuffer, g2) \<Rightarrow>
           if \<not> ok then (False, framebuffer, texture, s\<lparr>gl_context := DeleteTexture g2 texture\<rparr>)
           else (True, framebuffer, texture, s\<lparr>gl_context := g2\<rparr>))))"

subsection \<open>OpenGLVideo::SetFiltering\<close>

text \<open>
  The reverse walk of SetFiltering: the counter \<open>last_filter\<close> is 0 at the last stage,
  whose pointer is not dereferenced.
\<close>

fun SetFiltering_loop ::
  "OpenGLFilterType list \<Rightarrow> nat \<Rightarrow> glfilt_map_t \<Rightarrow> MythRenderOpenGL \<Rightarrow> MythRenderOpenGL option" where
  "SetFiltering_loop [] last_filter m g = Some g"
| "SetFiltering_loop (k # ks) last_filter m g =
     (if last_filter = 1 then
        (case deref m k of None \<Rightarrow> None
         | Some f \<Rightarrow> SetFiltering_loop ks (last_filter + 1) m
             (SetTextureFilters (frameBufferTextures f) GL_LINEAR GL_CLAMP_TO_EDGE g))
      else if last_filter > 1 then
        (case deref m k of None \<Rightarrow> None
         | Some f \<Rightarrow> SetFiltering_loop ks (last_filter + 1) m
             (SetTextureFilters (frameBufferTextures f) GL_NEAREST GL_CLAMP_TO_EDGE g))
      else SetFiltering_loop ks (last_filter + 1) m g)"

definition SetFiltering :: "OpenGLVideo \<Rightarrow> OpenGLVideo option" where
  "SetFiltering s =
     (if map_keys (filters s) = [] \<or> map_size (filters s) = 1 then
        Some (s\<lparr>gl_context :=
                SetTextureFilters (inputTextures s) GL_LINEAR GL_CLAMP_TO_EDGE (gl_context s)\<rparr>)
      else
        (case SetFiltering_loop (rev (map_keys (filters s))) 0 (filters s)
                (SetTextureFilters (inputTextures s) GL_NEAREST GL_CLAMP_TO_EDGE (gl_context s)) of
           None \<Rightarrow> None
         | Some g \<Rightarrow> Some (s\<lparr>gl_context := g\<rparr>)))"

subsection \<open>OpenGLVideo::OptimiseFilters\<close>

text \<open>
  The loop that adds \<open>n\<close> frame buffers to the stage \<open>f\<close>; the first failure of
  AddFrameBuffer ends OptimiseFilters with \<open>false\<close>, the pairs pushed so far staying in
  the stage.
\<close>

fun add_buffers :: "Decls \<Rightarrow> nat \<Rightarrow> OpenGLFilter \<Rightarrow> OpenGLVideo \<Rightarrow> bool \<times> OpenGLFilter \<times> OpenGLVideo" where
  "add_buffers D 0 f s = (True, f, s)"
| "add_buffers D (Suc n) f s =
     (case AddFrameBuffer D s of (ok, tmp_buf, tmp_tex, s1) \<Rightarrow>
        if \<not> ok then (False, f, s1)
        else add_buffers D n
               (f\<lparr>frameBuffers := frameBuffers f @ [tmp_buf],
                  frameBufferTextures := frameBufferTextures f @ [tmp_tex]\<rparr>) s1)"

text \<open>
  The loop that frees \<open>n\<close> pairs from the back of the stage; \<open>back()\<close> and \<open>pop_back()\<close>
  on an empty vector are undefined, which is the result \<open>None\<close>.
\<close>

fun remove_buffers ::
  "nat \<Rightarrow> OpenGLFilter \<Rightarrow> MythRenderOpenGL \<Rightarrow> (OpenGLFilter \<times> MythRenderOpenGL) option" where
  "remove_buffers 0 f g = Some (f, g)"
| "remove_buffers (Suc n) f g =
     (if frameBuffers f = [] \<or> frameBufferTextures f = [] then None
      else remove_buffers n
             (f\<lparr>frameBuffers := butlast (frameBuffers f),
                frameBufferTextures := butlast (frameBufferTextures f)\<rparr>)
             (DeleteTexture (DeleteFrameBuffer g (last (frameBuffers f)))
                (last (frameBufferTextures f))))"

text \<open>
  The reverse walk over the stages. \<open>buffers_needed\<close> and \<open>buffers_have\<close> are \<open>uint\<close>;
  their difference is computed modulo \<open>2^32\<close> and read as a signed \<open>int\<close>.
  The result is \<open>None\<close> where the walk dereferences a null stage.
\<close>

fun OptimiseFilters_loop ::
  "Decls \<Rightarrow> OpenGLFilterType list \<Rightarrow> 32 word \<Rightarrow> bool \<Rightarrow> OpenGLVideo \<Rightarrow> (bool \<times> OpenGLVideo) option" where
  "OptimiseFilters_loop D [] buffers_needed last_filter s = Some (True, s)"
| "OptimiseFilters_loop D (k # ks) buffers_needed last_filter s =
     (case deref (filters s) k of
        None \<Rightarrow> None
      | Some f \<Rightarrow>
          if \<not> last_filter then
            (let f1 = f\<lparr>outputBuffer := kFrameBufferObject\<rparr>;
                 buffers_have = (word_of_nat (length (frameBuffers f1)) :: 32 word);
                 buffers_diff = sint (buffers_needed - buffers_have)
             in if buffers_diff > 0 then
                  (case add_buffers D (nat buffers_diff) f1 s of (ok, f2, s2) \<Rightarrow>
                     if \<not> ok then Some (False, put_filter k f2 s2)
                     else OptimiseFilters_loop D ks (numInputs f2) last_filter (put_filter k f2 s2))
                else if buffers_diff < 0 then
                  (case remove_buffers (nat (- buffers_diff)) f1 (gl_context s) of
                     None \<Rightarrow> None
                   | Some (f2, g2) \<Rightarrow>
                       OptimiseFilters_loop D ks (numInputs f2) last_filter
                         (put_filter k f2 (s\<lparr>gl_context := g2\<rparr>)))
                else OptimiseFilters_loop D ks (numInputs f1) last_filter (put_filter k f1 s))
          else
            OptimiseFilters_loop D ks (numInputs f) False
              (put_filter k (f\<lparr>outputBuffer := kDefaultBuffer\<rparr>) s))"

definition OptimiseFilters :: "Decls \<Rightarrow> OpenGLVideo \<Rightarrow> (bool \<times> OpenGLVideo) option" where
  "OptimiseFilters D s =
     (case OptimiseFilters_loop D (rev (map_keys (filters s))) 1 True s of
        None \<Rightarrow> None
      | Some (ok, s1) \<Rightarrow>
          if \<not> ok then Some (False, s1)
          else (case SetFiltering s1 of None \<Rightarrow> None | Some s2 \<Rightarrow> Some (True, s2)))"

subsection \<open>Fragment program text\<close>

text \<open>
  \<open>QString::replace(before, after)\<close>: every occurrence of \<open>before\<close>, from left to
  right, the inserted text not being scanned again.
\<close>

function replace_str :: "string \<Rightarrow> string \<Rightarrow> string \<Rightarrow> string" where
  "replace_str before after s =
     (if before = [] then after @ concat (map (\<lambda>c. c # after) s)
      else if s = [] then []
      else if starts_with s before then after @ replace_str before after (drop (length before) s)
      else hd s # replace_str before after (tl s))"
  by pat_completeness auto
termination
  by (relation "measure (\<lambda>(before, after, s). length s)") auto

text \<open>
  The program fragments, as the static strings of the source. The arrays of two
  programs are indexed by \<open>tmp_field\<close>, which is 0 or 1.
\<close>

definition attrib_fast :: string where
  "attrib_fast =
     ''ATTRIB tex   = fragment.texcoord[0];\<newline>'' @
     ''PARAM yuv[3] = { program.local[0..2] };\<newline>''"

definition tex_fast :: string where
  "tex_fast =
     ''TEX res, tex, texture[0], %1;\<newline>''"

definition var_fast :: string where
  "var_fast =
     ''TEMP tmp, res;\<newline>''"

definition end_fast :: string where
  "end_fast =
     ''DPH tmp.r, res.arbg, yuv[0];\<newline>'' @
     ''DPH tmp.g, res.arbg, yuv[1];\<newline>'' @
     ''DPH tmp.b, res.arbg, yuv[2];\<newline>'' @
     ''MOV tmp.a, res.g;\<newline>'' @
     ''MOV result.color, tmp;\<newline>''"

definition var_deint :: string where
  "var_deint =
     ''TEMP other, current, mov, prev;\<newline>''"

definition field_calc :: string where
  "field_calc =
     ''MUL prev, tex.yyyy, %2;\<newline>'' @
     ''FRC prev, prev;\<newline>'' @
     ''SUB prev, prev, 0.5;\<newline>''"

fun bobdeint :: "nat \<Rightarrow> string" where
  "bobdeint 0 =
     field_calc @
     ''ADD other, tex, {0.0, %3, 0.0, 0.0};\<newline>'' @
     ''TEX other, other, texture[0], %1;\<newline>'' @
     ''CMP res, prev, res, other;\<newline>''"
| "bobdeint (Suc n) =
     field_calc @
     ''SUB other, tex, {0.0, %3, 0.0, 0.0};\<newline>'' @
     ''TEX other, other, texture[0], %1;\<newline>'' @
     ''CMP res, prev, other, res;\<newline>''"

definition deint_end_top :: string where
  "deint_end_top =
     ''CMP res,  prev, current, other;\<newline>''"

definition deint_end_bot :: string where
  "deint_end_bot =
     ''CMP res,  prev, other, current;\<newline>''"

fun linearblend :: "nat \<Rightarrow> string" where
  "linearblend 0 =
     ''TEX current, tex, texture[1], %1;\<newline>'' @
     ''TEX prev, tex, texture[2], %1;\<newline>'' @
     ''ADD other, tex, {0.0, %3, 0.0, 0.0};\<newline>'' @
     ''TEX other, other, texture[1], %1;\<newline>'' @
     ''SUB mov, tex, {0.0, %3, 0.0, 0.0};\<newline>'' @
     ''TEX mov, mov, texture[1], %1;\<newline>'' @
     ''LRP other, 0.5, other, mov;\<newline>'' @
     field_calc @
     deint_end_top"
| "linearblend (Suc n) =
     ''TEX current, tex, texture[1], %1;\<newline>'' @
     ''SUB other, tex, {0.0, %3, 0.0, 0.0};\<newline>'' @
     ''TEX other, other, texture[1], %1;\<newline>'' @
     ''ADD mov, tex, {0.0, %3, 0.0, 0.0};\<newline>'' @
     ''TEX mov, mov, texture[1], %1;\<newline>'' @
     ''LRP other, 0.5, other, mov;\<newline>'' @
     field_calc @
     deint_end_bot"

fun kerneldeint :: "nat \<Rightarrow> string" where
  "kerneldeint 0 =
     ''TEX current, tex, texture[1], %1;\<newline>'' @
     ''TEX prev, tex, texture[2], %1;\<newline>'' @
     ''MUL other, 0.125, prev;\<newline>'' @
     ''MAD other, 0.125, current, other;\<newline>'' @
     ''ADD prev, tex, {0.0, %3, 0.0, 0.0};\<newline>'' @
     ''TEX prev, prev, texture[1], %1;\<newline>'' @
     ''MAD other, 0.5, prev, other;\<newline>'' @
     ''SUB prev, tex, {0.0, %3, 0.0, 0.0};\<newline>'' @
     ''TEX prev, prev, texture[1], %1;\<newline>'' @
     ''MAD other, 0.5, prev, other;\<newline>'' @
     ''ADD prev, tex, {0.0, %4, 0.0, 0.0};\<newline>'' @
     ''TEX tmp, prev, texture[1], %1;\<newline>'' @
     ''MAD other, -0.0625, tmp, other;\<newline>'' @
     ''TEX tmp, prev, texture[2], %1;\<newline>'' @
     ''MAD other, -0.0625, tmp, other;\<newline>'' @
     ''SUB prev, tex, {0.0, %4, 0.0, 0.0};\<newline>'' @
     ''TEX tmp, prev, texture[1], %1;\<newline>'' @
     ''MAD other, -0.0625, tmp, other;\<newline>'' @
     ''TEX tmp, prev, texture[2], %1;\<newline>'' @
     ''MAD other, -0.0625, tmp, other;\<newline>'' @
     field_calc @
     deint_end_top"
| "kerneldeint (Suc n) =
     ''TEX current, tex, texture[1], %1;\<newline>'' @
     ''MUL other, 0.125, res;\<newline>'' @
     ''MAD other, 0.125, current, other;\<newline>'' @
     ''ADD prev, tex, {0.0, %3, 0.0, 0.0};\<newline>'' @
     ''TEX prev, prev, texture[1], %1;\<newline>'' @
     ''MAD other, 0.5, prev, other;\<newline>'' @
     ''SUB prev, tex, {0.0, %3, 0.0, 0.0};\<newline>'' @
     ''TEX prev, prev, texture[1], %1;\<newline>'' @
     ''MAD other, 0.5, prev, other;\<newline>'' @
     ''ADD prev, tex, {0.0, %4, 0.0, 0.0};\<newline>'' @
     ''TEX tmp, prev, texture[1], %1;\<newline>'' @
     ''MAD other, -0.0625, tmp, other;\<newline>'' @
     ''TEX tmp, prev, texture[0], %1;\<newline>'' @
     ''MAD other, -0.0625, tmp, other;\<newline>'' @
     ''SUB prev, tex, {0.0, %4, 0.0, 0.0};\<newline>'' @
     ''TEX tmp, prev, texture[1], %1;\<newline>'' @
     ''MAD other, -0.0625, tmp, other;\<newline>'' @
     ''TEX tmp, prev, texture[0], %1;\<newline>'' @
     ''MAD other, -0.0625, tmp, other;\<newline>'' @
     field_calc @
     deint_end_bot"

definition yadif_setup :: string where
  "yadif_setup =
     ''TEMP a,b,c,e,f,g,h,j,k,l;\<newline>'' @
     ''TEMP a1,b1,f1,g1,h1,i1,j1,l1,m1,n1;\<newline>'' @
     ''ALIAS d1 = f;\<newline>'' @
     ''ALIAS k1 = g;\<newline>'' @
     ''ALIAS c1 = prev;\<newline>'' @
     ''ALIAS e1 = mov;\<newline>'' @
     ''ALIAS p0 = res;\<newline>'' @
     ''ALIAS p1 = c;\<newline>'' @
     ''ALIAS p3 = h;\<newline>'' @
     ''ALIAS spred1 = a;\<newline>'' @
     ''ALIAS spred2 = b;\<newline>'' @
     ''ALIAS spred3 = c;\<newline>'' @
     ''ALIAS spred4 = e;\<newline>'' @
     ''ALIAS spred5 = f;\<newline>'' @
     ''ALIAS sscore = g;\<newline>'' @
     ''ALIAS score1 = h;\<newline>'' @
     ''ALIAS score2 = j;\<newline>'' @
     ''ALIAS score3 = k;\<newline>'' @
     ''ALIAS score4 = l;\<newline>'' @
     ''ALIAS if1 = a1;\<newline>'' @
     ''ALIAS if2 = b1;\<newline>'' @
     ''TEMP p2, p4;\<newline>'' @
     ''ALIAS diff1 = a;\<newline>'' @
     ''ALIAS diff2 = b;\<newline>'' @
     ''TEMP diff0;\<newline>''"

definition yadif_spatial_sample :: string where
  "yadif_spatial_sample =
     ''ADD tmp, tex, {%5, %3, 0.0, 0.0};\<newline>'' @
     ''TEX e1, tmp, texture[1], %1;\<newline>'' @
     ''ADD tmp, tmp, {%5, 0.0, 0.0, 0.0};\<newline>'' @
     ''TEX f1, tmp, texture[1], %1;\<newline>'' @
     ''ADD tmp, tmp, {%5, 0.0, 0.0, 0.0};\<newline>'' @
     ''TEX g1, tmp, texture[1], %1;\<newline>'' @
     ''SUB tmp, tmp, {0.0, %4, 0.0, 0.0};\<newline>'' @
     ''TEX n1, tmp, texture[1], %1;\<newline>'' @
     ''SUB tmp, tmp, {%5, 0.0, 0.0, 0.0};\<newline>'' @
     ''TEX m1, tmp, texture[1], %1;\<newline>'' @
     ''SUB tmp, tmp, {%5, 0.0, 0.0, 0.0};\<newline>'' @
     ''TEX l1, tmp, texture[1], %1;\<newline>'' @
     ''SUB tmp, tex, {%5, %3, 0.0, 0.0};\<newline>'' @
     ''TEX j1, tmp, texture[1], %1;\<newline>'' @
     ''SUB tmp, tmp, {%5, 0.0, 0.0, 0.0};\<newline>'' @
     ''TEX i1, tmp, texture[1], %1;\<newline>'' @
     ''SUB tmp, tmp, {%5, 0.0, 0.0, 0.0};\<newline>'' @
     ''TEX h1, tmp, texture[1], %1;\<newline>'' @
     ''ADD tmp, tmp, {0.0, %4, 0.0, 0.0};\<newline>'' @
     ''TEX a1, tmp, texture[1], %1;\<newline>'' @
     ''ADD tmp, tmp, {%5, 0.0, 0.0, 0.0};\<newline>'' @
     ''TEX b1, tmp, texture[1], %1;\<newline>'' @
     ''ADD tmp, tmp, {%5, 0.0, 0.0, 0.0};\<newline>'' @
     ''TEX c1, tmp, texture[1], %1;\<newline>''"

definition yadif_calc :: string where
  "yadif_calc =
     ''LRP p0, 0.5, c, h;\<newline>'' @
     ''MOV p1, f;\<newline>'' @
     ''LRP p2, 0.5, d, i;\<newline>'' @
     ''MOV p3, g;\<newline>'' @
     ''LRP p4, 0.5, e, j;\<newline>'' @
     ''SUB diff0, d, i;\<newline>'' @
     ''ABS diff0, diff0;\<newline>'' @
     ''SUB tmp, a, f;\<newline>'' @
     ''ABS tmp, tmp;\<newline>'' @
     ''SUB diff1, b, g;\<newline>'' @
     ''ABS diff1, diff1;\<newline>'' @
     ''LRP diff1, 0.5, diff1, tmp;\<newline>'' @
     ''SUB tmp, k, f;\<newline>'' @
     ''ABS tmp, tmp;\<newline>'' @
     ''SUB diff2, g, l;\<newline>'' @
     ''ABS diff2, diff2;\<newline>'' @
     ''LRP diff2, 0.5, diff2, tmp;\<newline>'' @
     ''MAX diff0, diff0, diff1;\<newline>'' @
     ''MAX diff0, diff0, diff2;\<newline>'' @
     ''SUB tmp, p0, p1;\<newline>'' @
     ''SUB other, p4, p3;\<newline>'' @
     ''MIN spred1, tmp, other;\<newline>'' @
     ''MAX spred2, tmp, other;\<newline>'' @
     ''SUB tmp, p2, p1;\<newline>'' @
     ''SUB other, p2, p3;\<newline>'' @
     ''MAX spred1, spred1, tmp;\<newline>'' @
     ''MAX spred1, spred1, other;\<newline>'' @
     ''MIN spred2, spred2, tmp;\<newline>'' @
     ''MIN spred2, spred2, other;\<newline>'' @
     ''MAX spred1, spred2, -spred1;\<newline>'' @
     ''MAX diff0, diff0, spred1;\<newline>'' @
     ''LRP spred1, 0.5, d1, k1;\<newline>'' @
     ''LRP spred2, 0.5, c1, l1;\<newline>'' @
     ''LRP spred3, 0.5, b1, m1;\<newline>'' @
     ''LRP spred4, 0.5, e1, j1;\<newline>'' @
     ''LRP spred5, 0.5, f1, i1;\<newline>'' @
     ''SUB sscore, c1, j1;\<newline>'' @
     ''ABS sscore, sscore;\<newline>'' @
     ''SUB tmp, d1, k1;\<newline>'' @
     ''ABS tmp, tmp;\<newline>'' @
     ''ADD sscore, sscore, tmp;\<newline>'' @
     ''SUB tmp, e1, l1;\<newline>'' @
     ''ABS tmp, tmp;\<newline>'' @
     ''ADD sscore, sscore, tmp;\<newline>'' @
     ''SUB sscore, sscore, 1.0;\<newline>'' @
     ''SUB score1, b1, k1;\<newline>'' @
     ''ABS score1, score1;\<newline>'' @
     ''SUB tmp, c1, l1;\<newline>'' @
     ''ABS tmp, tmp;\<newline>'' @
     ''ADD score1, score1, tmp;\<newline>'' @
     ''SUB tmp, d1, m1;\<newline>'' @
     ''ABS tmp, tmp;\<newline>'' @
     ''ADD score1, score1, tmp;\<newline>'' @
     ''SUB score2, a1, l1;\<newline>'' @
     ''ABS score2, score2;\<newline>'' @
     ''SUB tmp, b1, m1;\<newline>'' @
     ''ABS tmp, tmp;\<newline>'' @
     ''ADD score2, score2, tmp;\<newline>'' @
     ''SUB tmp, c1, n1;\<newline>'' @
     ''ABS tmp, tmp;\<newline>'' @
     ''ADD score2, score2, tmp;\<newline>'' @
     ''SUB score3, d1, i1;\<newline>'' @
     ''ABS score3, score3;\<newline>'' @
     ''SUB tmp, e1, j1;\<newline>'' @
     ''ABS tmp, tmp;\<newline>'' @
     ''ADD score3, score3, tmp;\<newline>'' @
     ''SUB tmp, f1, k1;\<newline>'' @
     ''ABS tmp, tmp;\<newline>'' @
     ''ADD score3, score3, tmp;\<newline>'' @
     ''SUB score4, e1, h1;\<newline>'' @
     ''ABS score4, score4;\<newline>'' @
     ''SUB tmp, f1, i1;\<newline>'' @
     ''ABS tmp, tmp;\<newline>'' @
     ''ADD score4, score4, tmp;\<newline>'' @
     ''SUB tmp, g1, j1;\<newline>'' @
     ''ABS tmp, tmp;\<newline>'' @
     ''ADD score4, score4, tmp;\<newline>'' @
     ''SUB if1, sscore, score1;\<newline>'' @
     ''SUB if2, score1, score2;\<newline>'' @
     ''CMP if2, if1, -1.0, if2;\<newline>'' @
     ''CMP spred1, if1, spred1, spred2;\<newline>'' @
     ''CMP spred1, if2, spred1, spred3;\<newline>'' @
     ''CMP sscore, if1, sscore, score1;\<newline>'' @
     ''CMP sscore, if2, sscore, score2;\<newline>'' @
     ''SUB if1, sscore, score3;\<newline>'' @
     ''SUB if2, score3, score4;\<newline>'' @
     ''CMP if2, if1, -1.0, if2;\<newline>'' @
     ''CMP spred1, if1, spred1, spred4;\<newline>'' @
     ''CMP spred1, if2, spred1, spred5;\<newline>'' @
     ''ADD spred4, p2, diff0;\<newline>'' @
     ''SUB spred5, p2, diff0;\<newline>'' @
     ''SUB if1, spred4, spred1;\<newline>'' @
     ''SUB if2, spred1, spred5;\<newline>'' @
     ''CMP spred1, if1, spred4, spred1;\<newline>'' @
     ''CMP spred1, if2, spred5, spred1;\<newline>''"

fun yadif :: "nat \<Rightarrow> string" where
  "yadif 0 =
     yadif_setup @
     ''TEMP d;\<newline>'' @
     ''ALIAS i = current;\<newline>'' @
     ''TEX current, tex, texture[1], %1;\<newline>'' @
     ''TEX d, tex, texture[2], %1;\<newline>'' @
     ''ADD tmp, tex, {0.0, %3, 0.0, 0.0};\<newline>'' @
     ''TEX a, tmp, texture[2], %1;\<newline>'' @
     ''TEX f, tmp, texture[1], %1;\<newline>'' @
     ''TEX k, tmp, texture[0], %1;\<newline>'' @
     ''ADD tmp, tex, {0.0, %4, 0.0, 0.0};\<newline>'' @
     ''TEX c, tmp, texture[2], %1;\<newline>'' @
     ''TEX h, tmp, texture[1], %1;\<newline>'' @
     ''SUB tmp, tex, {0.0, %3, 0.0, 0.0};\<newline>'' @
     ''TEX b, tmp, texture[2], %1;\<newline>'' @
     ''TEX g, tmp, texture[1], %1;\<newline>'' @
     ''TEX l, tmp, texture[0], %1;\<newline>'' @
     ''SUB tmp, tex, {0.0, %4, 0.0, 0.0};\<newline>'' @
     ''TEX e, tmp, texture[2], %1;\<newline>'' @
     ''TEX j, tmp, texture[1], %1;\<newline>'' @
     yadif_spatial_sample @
     yadif_calc @
     field_calc @
     ''CMP res, prev, current, spred1;\<newline>''"
| "yadif (Suc n) =
     yadif_setup @
     ''TEMP i;\<newline>'' @
     ''ALIAS d = current;\<newline>'' @
     ''TEX current, tex, texture[1], %1;\<newline>'' @
     ''TEX i, tex, texture[0], %1;\<newline>'' @
     ''ADD tmp, tex, {0.0, %3, 0.0, 0.0};\<newline>'' @
     ''TEX a, tmp, texture[2], %1;\<newline>'' @
     ''TEX f, tmp, texture[1], %1;\<newline>'' @
     ''TEX k, tmp, texture[0], %1;\<newline>'' @
     ''ADD tmp, tex, {0.0, %4, 0.0, 0.0};\<newline>'' @
     ''TEX c, tmp, texture[1], %1;\<newline>'' @
     ''TEX h, tmp, texture[0], %1;\<newline>'' @
     ''SUB tmp, tex, {0.0, %3, 0.0, 0.0};\<newline>'' @
     ''TEX b, tmp, texture[2], %1;\<newline>'' @
     ''TEX g, tmp, texture[1], %1;\<newline>'' @
     ''TEX l, tmp, texture[0], %1;\<newline>'' @
     ''SUB tmp, tex, {0.0, %4, 0.0, 0.0};\<newline>'' @
     ''TEX e, tmp, texture[1], %1;\<newline>'' @
     ''TEX j, tmp, texture[0], %1;\<newline>'' @
     yadif_spatial_sample @
     yadif_calc @
     field_calc @
     ''CMP res, prev, spred1, current;\<newline>''"

definition bicubic :: string where
  "bicubic =
     ''TEMP coord, coord2, cdelta, parmx, parmy, a, b, c, d;\<newline>'' @
     ''MAD coord.xy, fragment.texcoord[0], {%6, %7}, {0.5, 0.5};\<newline>'' @
     ''TEX parmx, coord.x, texture[1], 1D;\<newline>'' @
     ''TEX parmy, coord.y, texture[1], 1D;\<newline>'' @
     ''MUL cdelta.xz, parmx.rrgg, {-%5, 0, %5, 0};\<newline>'' @
     ''MUL cdelta.yw, parmy.rrgg, {0, -%3, 0, %3};\<newline>'' @
     ''ADD coord, fragment.texcoord[0].xyxy, cdelta.xyxw;\<newline>'' @
     ''ADD coord2, fragment.texcoord[0].xyxy, cdelta.zyzw;\<newline>'' @
     ''TEX a, coord.xyxy, texture[0], 2D;\<newline>'' @
     ''TEX b, coord.zwzw, texture[0], 2D;\<newline>'' @
     ''TEX c, coord2.xyxy, texture[0], 2D;\<newline>'' @
     ''TEX d, coord2.zwzw, texture[0], 2D;\<newline>'' @
     ''LRP a, parmy.b, a, b;\<newline>'' @
     ''LRP c, parmy.b, c, d;\<newline>'' @
     ''LRP result.color, parmx.b, a, c;\<newline>''"

definition LOC :: string where
  "LOC = ''GLVid: ''"

definition LOC_ERR :: string where
  "LOC_ERR = ''GLVid, Error: ''"

fun FilterToString :: "OpenGLFilterType \<Rightarrow> string" where
  "FilterToString kGLFilterNone = []"
| "FilterToString kGLFilterYUV2RGB = ''master''"
| "FilterToString kGLFilterResize = ''resize''"
| "FilterToString kGLFilterBicubic = ''bicubic''"

text \<open>
  The loop \<open>while (w < size) w *= 2\<close> of \<open>OpenGLVideo::GetTextureSize\<close>, on a C++
  \<open>int\<close>. Doubling a value above \<open>2^30\<close> overflows: the behaviour is undefined (in
  practice the loop never ends), which is the result \<open>None\<close>. The loop starts at 64,
  so \<open>w\<close> is positive.
\<close>

function pow2_from :: "int \<Rightarrow> int \<Rightarrow> int option" where
  "pow2_from w n =
     (if w < n then (if 0 < w \<and> w * 2 \<le> 2147483647 then pow2_from (w * 2) n else None)
      else Some w)"
  by pat_completeness auto
termination
  by (relation "measure (\<lambda>(w, n). nat (n - w))") auto

definition GetTextureSize :: "OpenGLVideo \<Rightarrow> QSize \<Rightarrow> QSize option" where
  "GetTextureSize s sz =
     (if textureRects s then Some sz
      else (case pow2_from 64 (width sz) of
              None \<Rightarrow> None
            | Some w \<Rightarrow>
                (case pow2_from 64 (height sz) of
                   None \<Rightarrow> None
                 | Some h \<Rightarrow> Some \<lparr> width = w, height = h \<rparr>)))"

text \<open>
  The \<open>switch\<close> of GetProgramString for the colourspace conversion stage: the
  deinterlacing body, whether the plain texture fetch is needed, and the messages
  written with \<open>VERBOSE\<close>.
\<close>

definition deint_choice :: "string \<Rightarrow> FrameScanType \<Rightarrow> string \<times> bool \<times> string list" where
  "deint_choice deint field =
     (if deint \<noteq> [] then
        (let tmp_field = (if field = kScan_Intr2ndField then 1 else 0 :: nat)
         in if deint = ''openglbobdeint'' \<or> deint = ''openglonefield'' \<or>
               deint = ''opengldoubleratefieldorder''
            then (bobdeint tmp_field, True, [])
            else if deint = ''opengllinearblend'' \<or> deint = ''opengldoubleratelinearblend''
            then (linearblend tmp_field, tmp_field \<noteq> 0, [])
            else if deint = ''openglkerneldeint'' \<or> deint = ''opengldoubleratekerneldeint''
            then (kerneldeint tmp_field, tmp_field \<noteq> 0, [])
            else if deint = ''openglyadif'' \<or> deint = ''opengldoublerateyadif''
            then (yadif tmp_field, False, [])
            else ([], True, [LOC @ ''Unrecognised OpenGL deinterlacer'']))
      else ([], True, []))"

text \<open>The text of the program before the placeholders are replaced.\<close>

definition program_template ::
  "OpenGLFilterType \<Rightarrow> string \<Rightarrow> FrameScanType \<Rightarrow> string \<times> string list" where
  "program_template name deint field =
     (let ret = ''!!ARBfp1.0\<newline>'' @ ''OPTION ARB_precision_hint_fastest;\<newline>''
      in case name of
           kGLFilterYUV2RGB \<Rightarrow>
             (case deint_choice deint field of (deint_bit, need_tex, msgs) \<Rightarrow>
                (ret @ attrib_fast @ (if deint \<noteq> [] then var_deint else []) @
                 (var_fast @ (if need_tex then tex_fast else [])) @ deint_bit @ end_fast, msgs))
         | kGLFilterNone \<Rightarrow> (ret, [])
         | kGLFilterResize \<Rightarrow> (ret, [])
         | kGLFilterBicubic \<Rightarrow> (ret @ bicubic, []))"

text \<open>
  The replacement of the placeholders \<open>%1\<close> to \<open>%7\<close>, given the frame buffer
  size \<open>fb_size\<close>. The numbers are floats printed by \<open>setNum\<close>; their text is
  \<open>setNum_text D\<close>.
\<close>

definition replace_placeholders :: "Decls \<Rightarrow> OpenGLVideo \<Rightarrow> QSize \<Rightarrow> string \<Rightarrow> string" where
  "replace_placeholders D s fb_size ret =
     (let temp = (if textureRects s then ''RECT'' else ''2D'');
          r1 = replace_str ''%1'' temp ret;
          num = setNum_text D (textureRects s) (inputTextureSize s) fb_size;
          r2 = replace_str ''%2'' (num 2) r1;
          r3 = replace_str ''%3'' (num 3) r2;
          r4 = replace_str ''%4'' (num 4) r3;
          r5 = replace_str ''%5'' (num 5) r4;
          r6 = replace_str ''%6'' (num 6) r5;
          r7 = replace_str ''%7'' (num 7) r6
      in r7)"

text \<open>
  The frame buffer size is computed by GetTextureSize, the placeholders are replaced
  and \<open>END\<close> is appended.
\<close>

definition fill_placeholders :: "Decls \<Rightarrow> OpenGLVideo \<Rightarrow> string \<Rightarrow> string option" where
  "fill_placeholders D s ret =
     (case GetTextureSize s (video_dim s) of
        None \<Rightarrow> None
      | Some fb_size \<Rightarrow> Some (replace_placeholders D s fb_size ret @ ''END''))"

text \<open>
  \<open>GetProgramString\<close> returns the program text; the second component lists the
  messages it writes with \<open>VERBOSE\<close>, in order.
\<close>

definition GetProgramString ::
  "Decls \<Rightarrow> OpenGLVideo \<Rightarrow> OpenGLFilterType \<Rightarrow> string \<Rightarrow> FrameScanType \<Rightarrow>
   (string \<times> string list) option" where
  "GetProgramString D s name deint field =
     (case program_template name deint field of (ret0, msgs) \<Rightarrow>
        (case fill_placeholders D s ret0 of
           None \<Rightarrow> None
         | Some ret \<Rightarrow>
             Some (ret, msgs @ [''\<newline>'' @ ret @ ''\<newline>'',
                                LOC @ ''Created '' @ FilterToString name @
                                  '' fragment program '' @ deint])))"

subsection \<open>Adding and removing stages\<close>

text \<open>
  \<open>AddFragmentProgram\<close> returns the handle of the new program, 0 when fragment programs
  are unsupported or the context refuses the program; \<open>None\<close> where GetProgramString
  does not return.
\<close>

definition AddFragmentProgram ::
  "Decls \<Rightarrow> OpenGLFilterType \<Rightarrow> string \<Rightarrow> FrameScanType \<Rightarrow> OpenGLVideo \<Rightarrow>
   (nat \<times> OpenGLVideo) option" where
  "AddFragmentProgram D name deint field s =
     (if \<not> has_feature s (kGLExtFragProg D) then Some (0, s)
      else (case GetProgramString D s name deint field of
              None \<Rightarrow> None
            | Some (program, msgs) \<Rightarrow>
                (case CreateFragmentProgram (gl_context s) program of (ok, ret, g1) \<Rightarrow>
                   if ok then Some (ret, s\<lparr>gl_context := g1\<rparr>)
                   else Some (0, s\<lparr>gl_context := g1\<rparr>))))"

text \<open>
  \<open>RemoveFilter\<close> deletes the programs, frame buffers and textures of the stage and
  stores the null pointer under its key; the callers erase the key afterwards.
  The function always returns \<open>true\<close>, so the model returns the state only, \<open>None\<close>
  where the source dereferences a null stage.
\<close>

definition RemoveFilter :: "OpenGLFilterType \<Rightarrow> OpenGLVideo \<Rightarrow> OpenGLVideo option" where
  "RemoveFilter flt s =
     (if \<not> count_key (filters s) flt then Some s
      else (case deref (filters s) flt of
              None \<Rightarrow> None
            | Some f \<Rightarrow>
                (let g1 = DeleteFragmentPrograms_loop (fragmentPrograms f) (gl_context s);
                     g2 = DeleteFrameBuffers_loop (frameBuffers f) g1;
                     g3 = DeleteTextures_loop (frameBufferTextures f) g2
                 in Some (s\<lparr>gl_context := g3, filters := (filters s)(flt \<mapsto> None)\<rparr>))))"

text \<open>
  The helper texture of the bicubic stage: an old one is deleted, a new one created.
\<close>

definition AddFilter_helper :: "OpenGLFilterType \<Rightarrow> OpenGLVideo \<Rightarrow> bool \<times> OpenGLVideo" where
  "AddFilter_helper flt s =
     (if flt = kGLFilterBicubic then
        (let g0 = (if helperTexture s \<noteq> 0 then DeleteTexture (gl_context s) (helperTexture s)
                   else gl_context s)
         in case CreateHelperTexture g0 of (h, g1) \<Rightarrow>
              (h \<noteq> 0, s\<lparr>gl_context := g1, helperTexture := h\<rparr>))
      else (True, s))"

text \<open>
  The program of the new stage; AddFragmentProgram is called with its default
  arguments, no deinterlacer and a progressive scan.
\<close>

definition AddFilter_program ::
  "Decls \<Rightarrow> OpenGLFilterType \<Rightarrow> bool \<Rightarrow> OpenGLFilter \<Rightarrow> OpenGLVideo \<Rightarrow>
   (bool \<times> OpenGLFilter \<times> OpenGLVideo) option" where
  "AddFilter_program D flt success temp s =
     (if success \<and> flt \<noteq> kGLFilterNone \<and> flt \<noteq> kGLFilterResize then
        (case AddFragmentProgram D flt [] kScan_Progressive s of
           None \<Rightarrow> None
         | Some (program, s1) \<Rightarrow>
             if program = 0 then Some (False, temp, s1)
             else Some (True, temp\<lparr>fragmentPrograms := fragmentPrograms temp @ [program]\<rparr>, s1))
      else Some (success, temp, s))"

text \<open>
  \<open>AddFilter\<close>. The new stage \<open>temp\<close> is stored in the map only when its resources
  were created (\<open>success2\<close>). When OptimiseFilters then returns \<open>false\<close>, the failure
  branch calls RemoveFilter, which deletes the stage stored under the key, that is
  \<open>temp\<close> (line 523), and then deletes \<open>temp\<close> once more (line 493): the behaviour
  is undefined, the result \<open>None\<close>. When \<open>temp\<close> was not stored, RemoveFilter finds no
  entry and \<open>temp\<close> is deleted once.
\<close>

definition AddFilter :: "Decls \<Rightarrow> OpenGLFilterType \<Rightarrow> OpenGLVideo \<Rightarrow> (bool \<times> OpenGLVideo) option" where
  "AddFilter D flt s =
     (if count_key (filters s) flt then Some (True, s)
      else if \<not> has_feature s (kGLExtFBufObj D) \<and> flt = kGLFilterResize \<and>
              map_size (filters s) \<noteq> 0 then Some (False, s)
      else if \<not> (has_feature s (kGLExtFragProg D) \<and> has_feature s (kGLExtFBufObj D)) \<and>
              flt = kGLFilterBicubic then Some (False, s)
      else
        (let temp = \<lparr> fragmentPrograms = [], numInputs = 1, frameBuffers = [],
                      frameBufferTextures = [], outputBuffer = kDefaultBuffer \<rparr>
         in case AddFilter_helper flt s of (success1, s1) \<Rightarrow>
           (case AddFilter_program D flt success1 temp s1 of
              None \<Rightarrow> None
            | Some (success2, temp2, s2) \<Rightarrow>
             (case (if success2 then
                      OptimiseFilters D
                        (put_filter flt
                           (temp2\<lparr>outputBuffer := kDefaultBuffer, frameBuffers := [],
                                    frameBufferTextures := []\<rparr>) s2)
                    else Some (False, s2)) of
                None \<Rightarrow> None
              | Some (success, s3) \<Rightarrow>
                  if \<not> success then
                    (case RemoveFilter flt s3 of
                       None \<Rightarrow> None
                     | Some s4 \<Rightarrow> if success2 then None else Some (False, erase flt s4))
                  else Some (True, s3)))))"

subsection \<open>OpenGLVideo::CheckResize\<close>

definition resize_up :: "OpenGLVideo \<Rightarrow> bool \<Rightarrow> bool" where
  "resize_up s allow =
     ((height (video_dim s) < rect_height (display_video_rect s) \<or>
       width (video_dim s) < rect_width (display_video_rect s)) \<and> allow)"

definition resize_down :: "OpenGLVideo \<Rightarrow> bool \<Rightarrow> bool \<Rightarrow> bool" where
  "resize_down s deinterlacing allow =
     (height (video_dim s) > rect_height (display_video_rect s) \<and> deinterlacing \<and> allow)"

definition CheckResize :: "Decls \<Rightarrow> bool \<Rightarrow> bool \<Rightarrow> OpenGLVideo \<Rightarrow> OpenGLVideo option" where
  "CheckResize D deinterlacing allow s =
     (if resize_up s allow \<and> defaultUpsize s = kGLFilterBicubic then
        (case RemoveFilter kGLFilterResize s of
           None \<Rightarrow> None
         | Some s1 \<Rightarrow> map_option snd (AddFilter D kGLFilterBicubic (erase kGLFilterResize s1)))
      else if (resize_up s allow \<and> defaultUpsize s = kGLFilterResize) \<or>
              resize_down s deinterlacing allow then
        (case RemoveFilter kGLFilterBicubic s of
           None \<Rightarrow> None
         | Some s1 \<Rightarrow> map_option snd (AddFilter D kGLFilterResize (erase kGLFilterBicubic s1)))
      else
        (case RemoveFilter kGLFilterBicubic s of
           None \<Rightarrow> None
         | Some s1 \<Rightarrow> map_option snd (OptimiseFilters D (erase kGLFilterBicubic s1))))"

subsection \<open>Deinterlacer set-up\<close>

text \<open>
  \<open>CreateVideoTexture\<close> returns the handle of the new texture (0 on failure) and, through
  its reference parameter, the allocated size.
\<close>

definition CreateVideoTexture :: "QSize \<Rightarrow> OpenGLVideo \<Rightarrow> nat \<times> QSize \<times> OpenGLVideo" where
  "CreateVideoTexture sz s =
     (case CreateTexture (gl_context s) of (tmp_tex, g1) \<Rightarrow>
        (tmp_tex, gl_GetTextureSize (textureRects s) sz, s\<lparr>gl_context := g1\<rparr>))"

definition TearDownDeinterlacer :: "OpenGLVideo \<Rightarrow> OpenGLVideo option" where
  "TearDownDeinterlacer s =
     (if \<not> count_key (filters s) kGLFilterYUV2RGB then Some s
      else (case deref (filters s) kGLFilterYUV2RGB of
              None \<Rightarrow> None
            | Some tmp \<Rightarrow>
                (let (tmp1, g1) =
                       (if length (fragmentPrograms tmp) = 3
                        then (tmp\<lparr>fragmentPrograms := butlast (fragmentPrograms tmp)\<rparr>,
                              DeleteFragmentProgram (gl_context s) (fragmentPrograms tmp ! 2))
                        else (tmp, gl_context s));
                     (tmp2, g2) =
                       (if length (fragmentPrograms tmp1) = 2
                        then (tmp1\<lparr>fragmentPrograms := butlast (fragmentPrograms tmp1)\<rparr>,
                              DeleteFragmentProgram g1 (fragmentPrograms tmp1 ! 1))
                        else (tmp1, g1))
                 in Some ((put_filter kGLFilterYUV2RGB tmp2 s)
                            \<lparr>gl_context := DeleteTextures_loop (referenceTextures s) g2,
                             referenceTextures := [], refsNeeded := 0\<rparr>))))"

text \<open>
  The loop of AddDeinterlacer that creates the reference textures; a failed creation
  clears \<open>success\<close> and the loop goes on.
\<close>

fun create_refs :: "nat \<Rightarrow> bool \<Rightarrow> OpenGLVideo \<Rightarrow> bool \<times> OpenGLVideo" where
  "create_refs 0 success s = (success, s)"
| "create_refs (Suc ref_size) success s =
     (case CreateVideoTexture (actual_video_dim s) s of (tex, tex_size, s1) \<Rightarrow>
        (let s2 = s1\<lparr>inputTextureSize := tex_size\<rparr>
         in if tex \<noteq> 0
            then create_refs ref_size success
                   (s2\<lparr>referenceTextures := referenceTextures s2 @ [tex]\<rparr>)
            else create_refs ref_size False s2))"

definition AddDeinterlacer :: "Decls \<Rightarrow> string \<Rightarrow> OpenGLVideo \<Rightarrow> (bool \<times> OpenGLVideo) option" where
  "AddDeinterlacer D deinterlacer s =
     (if \<not> has_feature s (kGLExtFragProg D) then Some (False, s)
      else if \<not> count_key (filters s) kGLFilterYUV2RGB then Some (False, s)
      else if hardwareDeinterlacer s = deinterlacer then Some (True, s)
      else
        (case TearDownDeinterlacer s of
           None \<Rightarrow> None
         | Some s1 \<Rightarrow>
            (let ref_size = (if deinterlacer = ''openglbobdeint'' \<or>
                                deinterlacer = ''openglonefield'' \<or>
                                deinterlacer = ''opengldoubleratefieldorder''
                             then 0 else 2 :: nat);
                 s2 = s1\<lparr>refsNeeded := int ref_size\<rparr>
             in case create_refs ref_size True s2 of (success1, s3) \<Rightarrow>
               (case AddFragmentProgram D kGLFilterYUV2RGB deinterlacer kScan_Interlaced s3 of
                  None \<Rightarrow> None
                | Some (prog1, s4) \<Rightarrow>
                 (case AddFragmentProgram D kGLFilterYUV2RGB deinterlacer kScan_Intr2ndField s4 of
                    None \<Rightarrow> None
                  | Some (prog2, s5) \<Rightarrow>
                   (case (if prog1 \<noteq> 0 \<and> prog2 \<noteq> 0
                          then (case deref (filters s5) kGLFilterYUV2RGB of
                                  None \<Rightarrow> None
                                | Some f \<Rightarrow>
                                    Some (success1,
                                          put_filter kGLFilterYUV2RGB
                                            (f\<lparr>fragmentPrograms :=
                                                 fragmentPrograms f @ [prog1, prog2]\<rparr>) s5))
                          else Some (False, s5)) of
                      None \<Rightarrow> None
                    | Some (success, s6) \<Rightarrow>
                        if success then
                          (case CheckResize D (hardwareDeinterlacing s6) True s6 of
                             None \<Rightarrow> None
                           | Some s7 \<Rightarrow>
                               Some (True, s7\<lparr>hardwareDeinterlacer := deinterlacer\<rparr>))
                        else
                          (case TearDownDeinterlacer (s6\<lparr>hardwareDeinterlacer := []\<rparr>) of
                             None \<Rightarrow> None
                           | Some s7 \<Rightarrow> Some (False, s7))))))))"

subsection \<open>Uploading a frame\<close>

text \<open>
  The loop of RotateTextures, \<open>for (i = size - 1; i > 0; i--) refs[i] = refs[i - 1]\<close>.
\<close>

fun shift_refs :: "nat \<Rightarrow> nat list \<Rightarrow> nat list" where
  "shift_refs 0 refs = refs"
| "shift_refs (Suc i) refs = shift_refs i (refs[Suc i := refs ! i])"

text \<open>
  \<open>RotateTextures\<close>; reading \<open>inputTextures[0]\<close> of an empty vector is undefined, the
  result \<open>None\<close>.
\<close>

definition RotateTextures :: "OpenGLVideo \<Rightarrow> OpenGLVideo option" where
  "RotateTextures s =
     (if length (referenceTextures s) < 2 then Some s
      else
        (let s1 = (if refsNeeded s > 0 then s\<lparr>refsNeeded := refsNeeded s - 1\<rparr> else s);
             refs = referenceTextures s1;
             tmp = refs ! (length refs - 1);
             refs1 = shift_refs (length refs - 1) refs
         in case inputTextures s1 of
              [] \<Rightarrow> None
            | t0 # ts \<Rightarrow>
                Some (s1\<lparr>referenceTextures := refs1[0 := t0], inputTextures := tmp # ts\<rparr>)))"

record VideoFrame =
  frame_width :: int
  frame_height :: int
  codec :: VideoFrameType
  interlaced_frame :: bool
  buf :: nat

text \<open>
  Modelled from the spec: MythRenderOpenGL::GetTextureBuffer, the mapped buffer of a
  texture; the model keeps whether it is non-null.
\<close>

definition GetTextureBuffer :: "MythRenderOpenGL \<Rightarrow> nat \<Rightarrow> bool" where
  "GetTextureBuffer g h = buffer_ok g h"

text \<open>
  The bytes written into the mapped buffer: a software conversion when there is no
  colourspace conversion stage, else one of the two packings.
\<close>

definition converted_frame :: "OpenGLVideo \<Rightarrow> VideoFrame \<Rightarrow> bool \<Rightarrow> TexData" where
  "converted_frame s frame soft_bob =
     (if \<not> count_key (filters s) kGLFilterYUV2RGB then
        (if using_ycbcrtex s then Converted_UYVY422 (buf frame) else Converted_BGRA (buf frame))
      else if interlaced_frame frame \<and> \<not> soft_bob then Packed_interlaced (buf frame)
      else Packed_alpha (buf frame))"

definition UpdateInputFrame :: "VideoFrame \<Rightarrow> bool \<Rightarrow> OpenGLVideo \<Rightarrow> OpenGLVideo option" where
  "UpdateInputFrame frame soft_bob s =
     (if frame_width frame \<noteq> width (actual_video_dim s) \<or>
         frame_height frame \<noteq> height (actual_video_dim s) \<or>
         frame_width frame < 1 \<or> frame_height frame < 1 \<or>
         codec frame \<noteq> FMT_YV12
      then Some s
      else
        (case (if hardwareDeinterlacing s then RotateTextures s else Some s) of
           None \<Rightarrow> None
         | Some s1 \<Rightarrow>
            (case inputTextures s1 of
               [] \<Rightarrow> None
             | t0 # ts \<Rightarrow>
                 if \<not> GetTextureBuffer (gl_context s1) t0 then Some s1
                 else Some (s1\<lparr>gl_context :=
                                  UpdateTexture (gl_context s1) t0 (converted_frame s1 frame soft_bob),
                                inputUpdated := True\<rparr>))))"

definition SetDeinterlacing :: "Decls \<Rightarrow> bool \<Rightarrow> OpenGLVideo \<Rightarrow> OpenGLVideo option" where
  "SetDeinterlacing D deinterlacing s =
     (if deinterlacing = hardwareDeinterlacing s then Some s
      else CheckResize D deinterlacing True (s\<lparr>hardwareDeinterlacing := deinterlacing\<rparr>))"

subsection \<open>The hardware bob shift of PrepareFrame\<close>

text \<open>
  Lines 939 to 948 of PrepareFrame: the amount by which \<open>vrect\<close> is moved down
  (\<open>vrect.adjust(0, bob, 0, bob)\<close>) for the stage \<open>f\<close>, zero when the condition of the
  \<open>if\<close> is false. The floats are real numbers here; rounding is not modelled. On the
  default buffer \<open>display\<close> is \<open>display_video_rect\<close>. The condition of
  \<open>float field = kScan_Interlaced ? -1.0f : 1.0f\<close> is the enumerator itself.
\<close>

definition hardware_bob ::
  "Decls \<Rightarrow> OpenGLVideo \<Rightarrow> OpenGLFilter \<Rightarrow> bool \<Rightarrow> FrameScanType \<Rightarrow> real" where
  "hardware_bob D s f topfieldfirst scan =
     (if outputBuffer f = kDefaultBuffer \<and> hardwareDeinterlacing s \<and>
         hardwareDeinterlacer s = ''openglbobdeint''
      then
        (let bob = (real_of_int (rect_height (display_video_rect s)) /
                    real_of_int (rect_height (video_rect s))) / 2;
             field = (if kScan_Interlaced_value D \<noteq> 0 then - 1 else 1 :: real)
         in bob * (if topfieldfirst then field else - field))
      else 0)"

subsection \<open>The reconciliation invariant\<close>

text \<open>
  A stage is well-sized when its frame buffers and textures come in pairs and the
  counts fit a signed \<open>int\<close>; a graph is well-formed when no key holds the null
  pointer and every stage is well-sized.
\<close>

definition sizes_ok :: "OpenGLFilter \<Rightarrow> bool" where
  "sizes_ok f = (length (frameBuffers f) = length (frameBufferTextures f) \<and>
                 length (frameBuffers f) < 2 ^ 31 \<and> unat (numInputs f) < 2 ^ 31)"

definition graph_ok :: "OpenGLVideo \<Rightarrow> bool" where
  "graph_ok s = list_all (\<lambda>k. case deref (filters s) k of None \<Rightarrow> False | Some f \<Rightarrow> sizes_ok f)
                  (map_keys (filters s))"

text \<open>
  The condition on one stage met in the reverse walk: the last stage writes to the
  default buffer; an earlier stage writes to a frame buffer object and holds as many
  pairs as the stage after it has inputs.
\<close>

definition head_ok :: "32 word \<Rightarrow> bool \<Rightarrow> OpenGLFilter \<Rightarrow> bool" where
  "head_ok bn lf f =
     (if lf then outputBuffer f = kDefaultBuffer
      else outputBuffer f = kFrameBufferObject \<and> length (frameBuffers f) = unat bn \<and>
           length (frameBufferTextures f) = unat bn)"

fun rev_ok :: "32 word \<Rightarrow> bool \<Rightarrow> OpenGLFilter list \<Rightarrow> bool" where
  "rev_ok bn lf [] = True"
| "rev_ok bn lf (f # fs) = (head_ok bn lf f \<and> rev_ok (numInputs f) False fs)"



text \<open>
  \<open>before ks k\<close> is the element met just before \<open>k\<close> in a walk over \<open>ks\<close>. The stage
  immediately upstream of \<open>k\<close> is the one before \<open>k\<close> in pipeline order, the stage
  immediately downstream the one before \<open>k\<close> in the reverse walk.
\<close>

fun before :: "'a list \<Rightarrow> 'a \<Rightarrow> 'a option" where
  "before [] k = None"
| "before [x] k = None"
| "before (x # y # r) k = (if k = y then Some x else before (y # r) k)"







text \<open>The deinterlacer names that GetProgramString recognises.\<close>

definition known_deinterlacers :: "string list" where
  "known_deinterlacers =
     [''openglbobdeint'', ''openglonefield'', ''opengldoubleratefieldorder'',
      ''opengllinearblend'', ''opengldoubleratelinearblend'',
      ''openglkerneldeint'', ''opengldoubleratekerneldeint'',
      ''openglyadif'', ''opengldoublerateyadif'']"

text \<open>The two lines every program starts with.\<close>

definition program_header :: string where
  "program_header = ''!!ARBfp1.0\<newline>'' @ ''OPTION ARB_precision_hint_fastest;\<newline>''"

text \<open>
  A state in which no allocation of a frame buffer fails: frame buffer objects are
  available and the context grants every creation request.
\<close>

definition can_allocate :: "Decls \<Rightarrow> OpenGLVideo \<Rightarrow> bool" where
  "can_allocate D s = (has_feature s (kGLExtFBufObj D) \<and> (\<forall>n. create_ok (gl_context s) n))"




subsection \<open>Concrete states\<close>

text \<open>
  A context in which every request succeeds, and a player of a 720x480 video shown in a
  1920x1080 rectangle whose chain is the colourspace conversion stage alone, with a
  temporal deinterlacer installed: one input texture and two reference textures.
\<close>

definition ctx0 :: MythRenderOpenGL where
  "ctx0 = \<lparr> hw_features = 255, clock = 10, create_ok = (\<lambda>n. True), buffer_ok = (\<lambda>h. True),
            live_textures = [1, 2, 3], live_framebuffers = [],
            live_programs = [(4, ''p0''), (5, ''p1''), (6, ''p2'')],
            tex_filter = (\<lambda>h. None), tex_data = (\<lambda>h. None) \<rparr>"

definition convert_stage :: OpenGLFilter where
  "convert_stage = \<lparr> fragmentPrograms = [4, 5, 6], numInputs = 1, frameBuffers = [],
                     frameBufferTextures = [], outputBuffer = kDefaultBuffer \<rparr>"

definition video0 :: OpenGLVideo where
  "video0 = \<lparr> gl_context = ctx0,
               video_dim = \<lparr> width = 720, height = 480 \<rparr>,
               actual_video_dim = \<lparr> width = 720, height = 480 \<rparr>,
               display_video_rect =
                 \<lparr> rect_left = 0, rect_top = 0, rect_width = 1920, rect_height = 1080 \<rparr>,
               video_rect = \<lparr> rect_left = 0, rect_top = 0, rect_width = 720, rect_height = 480 \<rparr>,
               softwareDeinterlacer = [],
               hardwareDeinterlacer = ''opengllinearblend'',
               hardwareDeinterlacing = True,
               inputTextureSize = \<lparr> width = 1024, height = 512 \<rparr>,
               inputUpdated = False, refsNeeded = 2, textureRects = False, helperTexture = 0,
               defaultUpsize = kGLFilterResize, gl_features = 255,
               using_ycbcrtex = False, using_hardwaretex = False,
               inputTextures = [1], referenceTextures = [2, 3],
               filters = (\<lambda>k. if k = kGLFilterYUV2RGB then Some (Some convert_stage) else None) \<rparr>"

definition frame0 :: VideoFrame where
  "frame0 = \<lparr> frame_width = 720, frame_height = 480, codec = FMT_YV12,
               interlaced_frame = True, buf = 100 \<rparr>"

definition resize_stage :: OpenGLFilter where
  "resize_stage = \<lparr> fragmentPrograms = [], numInputs = 1, frameBuffers = [],
                    frameBufferTextures = [], outputBuffer = kDefaultBuffer \<rparr>"

text \<open>
  The reconciled chain of two stages: the conversion stage renders into frame buffer 7
  with texture 8, the resize stage into the default buffer.
\<close>

definition convert_stage_fbo :: OpenGLFilter where
  "convert_stage_fbo = convert_stage\<lparr>frameBuffers := [7], frameBufferTextures := [8],
                                     outputBuffer := kFrameBufferObject\<rparr>"

definition scaled :: OpenGLVideo where
  "scaled = video0\<lparr>gl_context := ctx0\<lparr>live_textures := [1, 2, 3, 8], live_framebuffers := [7]\<rparr>,
                   filters := (\<lambda>k. if k = kGLFilterYUV2RGB then Some (Some convert_stage_fbo)
                                   else if k = kGLFilterResize then Some (Some resize_stage)
                                   else None)\<rparr>"

text \<open>
  A player of hardware-decoded frames as Init leaves it: the plain resize stage is the
  only stage, and the video is shown at its own size.
\<close>

definition hw_state :: OpenGLVideo where
  "hw_state = video0\<lparr>display_video_rect :=
                        \<lparr> rect_left = 0, rect_top = 0, rect_width = 720, rect_height = 480 \<rparr>,
                     hardwareDeinterlacer := [], hardwareDeinterlacing := False,
                     refsNeeded := 0, using_hardwaretex := True, referenceTextures := [],
                     filters := (\<lambda>k. if k = kGLFilterResize then Some (Some resize_stage)
                                     else None)\<rparr>"


text \<open>
  The player \<open>video0\<close> on hardware without frame buffer objects, and the player of
  hardware-decoded frames shown in a 1920x1080 rectangle, with bicubic upscaling
  configured, on hardware without fragment programs.
\<close>

definition no_fbo_state :: OpenGLVideo where
  "no_fbo_state = video0\<lparr>gl_features := 247\<rparr>"

definition no_fragprog_state :: OpenGLVideo where
  "no_fragprog_state =
     hw_state\<lparr>display_video_rect :=
                 \<lparr> rect_left = 0, rect_top = 0, rect_width = 1920, rect_height = 1080 \<rparr>,
              defaultUpsize := kGLFilterBicubic, gl_features := 251\<rparr>"

section \<open>Properties\<close>

subsection \<open>Feature negotiation\<close>

text \<open>
  C4. For every option string and every feature mask reported by the hardware, the
  mask negotiated in Init is a subset of the hardware mask: ANDing it with the hardware
  mask again gives the negotiated mask back, whatever disable flags the string holds.
\<close>

theorem negotiated_features_subset_of_hardware:
  "Init_gl_features D options hw AND hw = Init_gl_features D options hw"
  by (simp add: Init_gl_features_def word_bw_assocs)


subsection \<open>Rotation of the reference textures\<close>

lemma shift_refs_eq:
  "i < length refs \<Longrightarrow> shift_refs i refs = take 1 refs @ take i refs @ drop (Suc i) refs"
proof (induction i arbitrary: refs)
  case 0
  then show ?case by (cases refs) simp_all
next
  case (Suc i)
  have "shift_refs (Suc i) refs = shift_refs i (refs[Suc i := refs ! i])" by simp
  also have "\<dots> = take 1 (refs[Suc i := refs ! i]) @ take i (refs[Suc i := refs ! i]) @
                   drop (Suc i) (refs[Suc i := refs ! i])"
    using Suc.prems by (intro Suc.IH) simp
  also have "\<dots> = take 1 refs @ take i refs @ (refs ! i) # drop (Suc (Suc i)) refs"
  proof -
    let ?r = "refs[Suc i := refs ! i]"
    have "?r = take (Suc i) refs @ refs ! i # drop (Suc (Suc i)) refs"
      using Suc.prems by (rule upd_conv_take_nth_drop)
    then have "drop (Suc i) ?r =
               drop (Suc i) (take (Suc i) refs @ refs ! i # drop (Suc (Suc i)) refs)"
      by simp
    then have "drop (Suc i) ?r = refs ! i # drop (Suc (Suc i)) refs"
      using Suc.prems by (simp add: min_def)
    moreover have "take 1 ?r = take 1 refs" "take i ?r = take i refs"
      by (simp_all add: take_update_cancel)
    ultimately show ?thesis by simp
  qed
  also have "\<dots> = take 1 refs @ take (Suc i) refs @ drop (Suc (Suc i)) refs"
    using Suc.prems by (simp add: take_Suc_conv_app_nth)
  finally show ?case .
qed

lemma shift_refs_all:
  "refs \<noteq> [] \<Longrightarrow> shift_refs (length refs - 1) refs = hd refs # butlast refs"
  using shift_refs_eq [of "length refs - 1" refs]
  by (cases refs) (simp_all add: butlast_conv_take)

text \<open>
  C10. When the reference ring holds at least two textures (and there is a current
  input texture \<open>t0\<close>), RotateTextures returns and permutes the collection made of the
  current input texture and the ring cyclically: the last ring texture becomes the input
  texture, the old input texture the first ring texture, the others move one slot down;
  the multiset of handles is the same. When the ring holds fewer than two textures the
  state, \<open>refsNeeded\<close> included, is unchanged.
\<close>

theorem RotateTextures_cyclic:
  "(2 \<le> length (referenceTextures s) \<and> inputTextures s = t0 # ts \<longrightarrow>
      (\<exists>s'. RotateTextures s = Some s' \<and>
            inputTextures s' = last (referenceTextures s) # ts \<and>
            referenceTextures s' = t0 # butlast (referenceTextures s) \<and>
            rotate1 (hd (inputTextures s') # referenceTextures s') = t0 # referenceTextures s \<and>
            mset (hd (inputTextures s') # referenceTextures s') = mset (t0 # referenceTextures s))) \<and>
   (length (referenceTextures s) < 2 \<longrightarrow> RotateTextures s = Some s)"
proof (intro conjI impI)
  assume a: "2 \<le> length (referenceTextures s) \<and> inputTextures s = t0 # ts"
  define refs where "refs = referenceTextures s"
  have ne: "refs \<noteq> []" using a by (auto simp: refs_def)
  have sh: "(shift_refs (length refs - 1) refs)[0 := t0] = t0 # butlast refs"
    using shift_refs_all [OF ne] by simp
  have la: "refs ! (length refs - 1) = last refs"
    using ne by (simp add: last_conv_nth)
  have bl: "butlast refs @ [last refs] = refs" using ne by simp
  show "\<exists>s'. RotateTextures s = Some s' \<and>
            inputTextures s' = last (referenceTextures s) # ts \<and>
            referenceTextures s' = t0 # butlast (referenceTextures s) \<and>
            rotate1 (hd (inputTextures s') # referenceTextures s') = t0 # referenceTextures s \<and>
            mset (hd (inputTextures s') # referenceTextures s') = mset (t0 # referenceTextures s)"
    using a sh la bl mset_append [of "butlast refs" "[last refs]"]
    unfolding refs_def [symmetric]
    by (auto simp add: RotateTextures_def Let_def refs_def [symmetric] simp del: mset_append)
next
  assume "length (referenceTextures s) < 2"
  then show "RotateTextures s = Some s" by (simp add: RotateTextures_def)
qed

theorem RotateTextures_cyclic_witness:
  "2 \<le> length (referenceTextures video0) \<and> inputTextures video0 = [1] \<and>
   (\<exists>s'. RotateTextures video0 = Some s' \<and> inputTextures s' = [3] \<and>
         referenceTextures s' = [1, 2]) \<and>
   length (referenceTextures (video0\<lparr>referenceTextures := [2]\<rparr>)) < 2 \<and>
   RotateTextures (video0\<lparr>referenceTextures := [2]\<rparr>) = Some (video0\<lparr>referenceTextures := [2]\<rparr>)"
proof -
  have r: "referenceTextures video0 = [2, 3]" and i: "inputTextures video0 = [1]"
    by (simp_all add: video0_def)
  from RotateTextures_cyclic [of video0 1 "[]"] r i
  obtain s' where "RotateTextures video0 = Some s'" "inputTextures s' = [3]"
    "referenceTextures s' = [1, 2]"
    by auto
  moreover from RotateTextures_cyclic [of "video0\<lparr>referenceTextures := [2]\<rparr>"]
  have "RotateTextures (video0\<lparr>referenceTextures := [2]\<rparr>) =
        Some (video0\<lparr>referenceTextures := [2]\<rparr>)"
    by simp
  ultimately show ?thesis using r i by auto
qed

subsection \<open>Upload of a frame that does not fit\<close>

text \<open>
  C6. For every frame whose width or height differs from the configured actual video
  dimensions, or whose pixel format is not YV12, UpdateInputFrame returns with the
  state unchanged: no rotation of the reference ring, \<open>refsNeeded\<close> not decremented, no
  texture updated, \<open>inputUpdated\<close> as it was.
\<close>

theorem UpdateInputFrame_mismatch_unchanged:
  assumes "frame_width frame \<noteq> width (actual_video_dim s) \<or>
           frame_height frame \<noteq> height (actual_video_dim s) \<or>
           codec frame \<noteq> FMT_YV12"
  shows "UpdateInputFrame frame soft_bob s = Some s"
  using assms by (auto simp: UpdateInputFrame_def)

theorem UpdateInputFrame_mismatch_unchanged_witness:
  "frame_width (frame0\<lparr>frame_width := 704\<rparr>) \<noteq> width (actual_video_dim video0) \<and>
   UpdateInputFrame (frame0\<lparr>frame_width := 704\<rparr>) False video0 = Some video0"
proof -
  have h: "frame_width (frame0\<lparr>frame_width := 704\<rparr>) \<noteq> width (actual_video_dim video0) \<or>
           frame_height (frame0\<lparr>frame_width := 704\<rparr>) \<noteq> height (actual_video_dim video0) \<or>
           codec (frame0\<lparr>frame_width := 704\<rparr>) \<noteq> FMT_YV12"
    by (simp add: video0_def)
  show ?thesis
    using UpdateInputFrame_mismatch_unchanged [OF h, of False] h
    by (simp add: video0_def)
qed

subsection \<open>The hardware bob shift\<close>

text \<open>
  C9. The claim is that the sign of the vertical shift depends on the field parity and
  on the scan phase. In the code the shift is the same for every scan phase: the
  condition that chooses the sign tests the enumerator \<open>kScan_Interlaced\<close>, not the
  parameter \<open>scan\<close>.
\<close>

theorem hardware_bob_ignores_scan:
  "hardware_bob D s f topfieldfirst scan = hardware_bob D s f topfieldfirst scan'"
  by (simp add: hardware_bob_def)



subsection \<open>Buffer reconciliation\<close>

lemma uint_small: "unat (b :: 32 word) < 2 ^ 31 \<Longrightarrow> uint b < 2 ^ 31"
proof -
  assume "unat b < 2 ^ 31"
  then have "int (unat b) < int (2 ^ 31)" by (simp only: of_nat_less_iff)
  then show ?thesis by simp
qed

lemma sint_small: "unat (b :: 32 word) < 2 ^ 31 \<Longrightarrow> sint b = uint b"
proof -
  assume a: "unat b < 2 ^ 31"
  have "sint b = signed_take_bit 31 (uint b)" by (simp add: sint_uint)
  also have "\<dots> = uint b"
  proof (rule signed_take_bit_int_eq_self)
    have "- (2 ^ 31) \<le> (0::int)" by simp
    also have "0 \<le> uint b" by simp
    finally show "- (2 ^ 31) \<le> uint b" .
    show "uint b < 2 ^ 31" using a by (rule uint_small)
  qed
  finally show ?thesis .
qed

lemma sint_of_nat_small: "a < 2 ^ 31 \<Longrightarrow> sint (word_of_nat a :: 32 word) = int a"
proof -
  assume a: "a < 2 ^ 31"
  have "sint (word_of_nat a :: 32 word) = signed_take_bit 31 (int a)"
    by (simp add: signed_of_nat)
  also have "\<dots> = int a"
    using a by (intro signed_take_bit_int_eq_self) simp_all
  finally show ?thesis .
qed

lemma sint_diff:
  assumes "a < 2 ^ 31" "unat (b :: 32 word) < 2 ^ 31"
  shows "sint (b - word_of_nat a) = uint b - int a"
proof -
  have 1: "sint b = uint b" using assms(2) by (rule sint_small)
  have 2: "sint (word_of_nat a :: 32 word) = int a" using assms(1) by (rule sint_of_nat_small)
  have 3: "uint b < 2 ^ 31" using assms(2) by (rule uint_small)
  have 4: "0 \<le> uint b" by simp
  have 5: "int a < 2 ^ 31" using assms(1) by simp
  have "sint (b - word_of_nat a) = signed_take_bit 31 (sint b - sint (word_of_nat a :: 32 word))"
    by (simp add: sint_word_ariths word_size)
  also have "\<dots> = uint b - int a"
    unfolding 1 2
  proof (rule signed_take_bit_int_eq_self)
    show "- (2 ^ 31) \<le> uint b - int a" using 4 5 by linarith
    show "uint b - int a < 2 ^ 31" using 3 by linarith
  qed
  finally show ?thesis .
qed


lemma AddFrameBuffer_filters:
  "AddFrameBuffer D s = (ok, b, t, s1) \<Longrightarrow> filters s1 = filters s"
  by (auto simp: AddFrameBuffer_def split: if_splits prod.splits)

lemma add_buffers_props:
  "add_buffers D n f s = (ok, f2, s2) \<Longrightarrow>
     filters s2 = filters s \<and> numInputs f2 = numInputs f \<and> outputBuffer f2 = outputBuffer f \<and>
     fragmentPrograms f2 = fragmentPrograms f \<and>
     (ok \<longrightarrow> length (frameBuffers f2) = length (frameBuffers f) + n \<and>
            length (frameBufferTextures f2) = length (frameBufferTextures f) + n)"
proof (induction n arbitrary: f s)
  case 0
  then show ?case by simp
next
  case (Suc n)
  obtain ok1 b t s1 where afb: "AddFrameBuffer D s = (ok1, b, t, s1)"
    by (cases "AddFrameBuffer D s") auto
  show ?case
  proof (cases ok1)
    case False
    with Suc.prems afb show ?thesis by (auto dest: AddFrameBuffer_filters)
  next
    case True
    let ?f1 = "f\<lparr>frameBuffers := frameBuffers f @ [b],
                   frameBufferTextures := frameBufferTextures f @ [t]\<rparr>"
    from Suc.prems afb True have "add_buffers D n ?f1 s1 = (ok, f2, s2)" by simp
    from Suc.IH [OF this] AddFrameBuffer_filters [OF afb] show ?thesis by simp
  qed
qed

lemma remove_buffers_props:
  "n \<le> length (frameBuffers f) \<Longrightarrow> length (frameBuffers f) = length (frameBufferTextures f) \<Longrightarrow>
   \<exists>f2 g2. remove_buffers n f g = Some (f2, g2) \<and>
     length (frameBuffers f2) = length (frameBuffers f) - n \<and>
     length (frameBufferTextures f2) = length (frameBuffers f) - n \<and>
     numInputs f2 = numInputs f \<and> outputBuffer f2 = outputBuffer f \<and>
     fragmentPrograms f2 = fragmentPrograms f"
proof (induction n arbitrary: f g)
  case 0
  then show ?case by simp
next
  case (Suc n)
  let ?f1 = "f\<lparr>frameBuffers := butlast (frameBuffers f),
                 frameBufferTextures := butlast (frameBufferTextures f)\<rparr>"
  let ?g1 = "DeleteTexture (DeleteFrameBuffer g (last (frameBuffers f)))
               (last (frameBufferTextures f))"
  from Suc.prems have ne: "frameBuffers f \<noteq> []" "frameBufferTextures f \<noteq> []" by auto
  have "n \<le> length (frameBuffers ?f1)" "length (frameBuffers ?f1) = length (frameBufferTextures ?f1)"
    using Suc.prems by simp_all
  from Suc.IH [OF this, of ?g1] ne show ?case by auto
qed

lemma can_allocate_put_filter [simp]: "can_allocate D (put_filter k f s) = can_allocate D s"
  by (simp add: can_allocate_def put_filter_def has_feature_def)

lemma AddFrameBuffer_keeps:
  "AddFrameBuffer D s = (ok, b, t, s1) \<Longrightarrow> can_allocate D s1 = can_allocate D s"
  by (auto simp: AddFrameBuffer_def can_allocate_def has_feature_def CreateTexture_def
      CreateFrameBuffer_def new_handle_def DeleteTexture_def split: if_splits prod.splits)

lemma AddFrameBuffer_granted:
  "can_allocate D s \<Longrightarrow> fst (AddFrameBuffer D s)"
  by (simp add: AddFrameBuffer_def can_allocate_def CreateTexture_def
      CreateFrameBuffer_def new_handle_def)

lemma add_buffers_keeps:
  "add_buffers D n f s = (ok, f2, s2) \<Longrightarrow> can_allocate D s2 = can_allocate D s"
proof (induction n arbitrary: f s)
  case 0
  then show ?case by simp
next
  case (Suc n)
  obtain ok1 b t s1 where afb: "AddFrameBuffer D s = (ok1, b, t, s1)"
    by (cases "AddFrameBuffer D s") auto
  note k = AddFrameBuffer_keeps [OF afb]
  show ?case
  proof (cases ok1)
    case False
    with Suc.prems afb k show ?thesis by auto
  next
    case True
    from Suc.prems afb True have "add_buffers D n
        (f\<lparr>frameBuffers := frameBuffers f @ [b],
           frameBufferTextures := frameBufferTextures f @ [t]\<rparr>) s1 = (ok, f2, s2)"
      by simp
    from Suc.IH [OF this] k show ?thesis by simp
  qed
qed

lemma add_buffers_granted:
  "can_allocate D s \<Longrightarrow> fst (add_buffers D n f s)"
proof (induction n arbitrary: f s)
  case 0
  then show ?case by simp
next
  case (Suc n)
  obtain ok1 b t s1 where afb: "AddFrameBuffer D s = (ok1, b, t, s1)"
    by (cases "AddFrameBuffer D s") auto
  from AddFrameBuffer_granted [OF Suc.prems] afb have ok1 by simp
  moreover from AddFrameBuffer_keeps [OF afb] Suc.prems have "can_allocate D s1" by simp
  ultimately show ?case using afb Suc.IH [of s1] by simp
qed

lemma remove_buffers_create_ok:
  "remove_buffers n f g = Some (f2, g2) \<Longrightarrow> create_ok g2 = create_ok g"
proof (induction n arbitrary: f g)
  case 0
  then show ?case by simp
next
  case (Suc n)
  from Suc.prems have "remove_buffers n
             (f\<lparr>frameBuffers := butlast (frameBuffers f),
                frameBufferTextures := butlast (frameBufferTextures f)\<rparr>)
             (DeleteTexture (DeleteFrameBuffer g (last (frameBuffers f)))
                (last (frameBufferTextures f))) = Some (f2, g2)"
    by (simp split: if_splits)
  from Suc.IH [OF this] show ?case by (simp add: DeleteTexture_def DeleteFrameBuffer_def)
qed

lemma loop_step:
  assumes d: "deref (filters s) k = Some f" and ok: "sizes_ok f" and bn: "unat bn < 2 ^ 31"
  shows "(\<exists>f2 s1. OptimiseFilters_loop D (k # ks) bn lf s = Some (False, s1) \<and>
                 filters s1 = (filters s)(k \<mapsto> Some f2) \<and> numInputs f2 = numInputs f \<and>
                 \<not> lf \<and> \<not> can_allocate D s) \<or>
         (\<exists>f2 s1. OptimiseFilters_loop D (k # ks) bn lf s =
                   OptimiseFilters_loop D ks (numInputs f) False s1 \<and>
                 filters s1 = (filters s)(k \<mapsto> Some f2) \<and> head_ok bn lf f2 \<and>
                 numInputs f2 = numInputs f \<and> sizes_ok f2 \<and>
                 (lf \<longrightarrow> frameBuffers f2 = frameBuffers f) \<and>
                 can_allocate D s1 = can_allocate D s)"
proof (cases lf)
  case True
  let ?f2 = "f\<lparr>outputBuffer := kDefaultBuffer\<rparr>"
  have e: "OptimiseFilters_loop D (k # ks) bn lf s =
        OptimiseFilters_loop D ks (numInputs f) False (put_filter k ?f2 s)"
    using d True by simp
  have fs: "filters (put_filter k ?f2 s) = (filters s)(k \<mapsto> Some ?f2)"
    by (simp add: put_filter_def)
  have h: "head_ok bn lf ?f2" using True by (simp add: head_ok_def)
  have z: "sizes_ok ?f2" using ok by (simp add: sizes_ok_def)
  show ?thesis
  proof (intro disjI2 exI conjI)
    show "OptimiseFilters_loop D (k # ks) bn lf s =
          OptimiseFilters_loop D ks (numInputs f) False (put_filter k ?f2 s)" by (rule e)
    show "filters (put_filter k ?f2 s) = (filters s)(k \<mapsto> Some ?f2)" by (rule fs)
    show "head_ok bn lf ?f2" by (rule h)
    show "numInputs ?f2 = numInputs f" by simp
    show "sizes_ok ?f2" by (rule z)
    show "lf \<longrightarrow> frameBuffers ?f2 = frameBuffers f" by simp
    show "can_allocate D (put_filter k ?f2 s) = can_allocate D s" by simp
  qed
next
  case False
  note nlf = False
  define f1 where "f1 = f\<lparr>outputBuffer := kFrameBufferObject\<rparr>"
  define cur where "cur = length (frameBuffers f)"
  define need where "need = unat bn"
  have hv: "cur < 2 ^ 31" and eq: "length (frameBufferTextures f) = cur"
    and ni: "unat (numInputs f) < 2 ^ 31"
    using ok by (simp_all add: sizes_ok_def cur_def)
  have diff: "sint (bn - word_of_nat cur) = int need - int cur"
    using sint_diff [OF hv bn] by (simp add: need_def)
  have f1: "length (frameBuffers f1) = cur" "length (frameBufferTextures f1) = cur"
    "numInputs f1 = numInputs f" "outputBuffer f1 = kFrameBufferObject"
    by (simp_all add: f1_def cur_def eq)
  have fin: "?thesis"
    if e: "OptimiseFilters_loop D (k # ks) bn lf s =
           OptimiseFilters_loop D ks (numInputs f) False s1"
      and fs: "filters s1 = (filters s)(k \<mapsto> Some f2)"
      and p: "length (frameBuffers f2) = need" "length (frameBufferTextures f2) = need"
        "numInputs f2 = numInputs f" "outputBuffer f2 = kFrameBufferObject"
      and ca: "can_allocate D s1 = can_allocate D s"
    for f2 s1
  proof (intro disjI2 exI conjI)
    show "OptimiseFilters_loop D (k # ks) bn lf s =
          OptimiseFilters_loop D ks (numInputs f) False s1" by (rule e)
    show "filters s1 = (filters s)(k \<mapsto> Some f2)" by (rule fs)
    show "head_ok bn lf f2" using nlf p by (simp add: head_ok_def need_def)
    show "numInputs f2 = numInputs f" by (rule p(3))
    show "sizes_ok f2" using p bn ni by (simp add: sizes_ok_def need_def)
    show "lf \<longrightarrow> frameBuffers f2 = frameBuffers f" using nlf by simp
    show "can_allocate D s1 = can_allocate D s" by (rule ca)
  qed
  consider (more) "cur < need" | (less) "need < cur" | (same) "need = cur" by linarith
  then show ?thesis
  proof cases
    case more
    obtain ok2 f2 s2 where ab: "add_buffers D (need - cur) f1 s = (ok2, f2, s2)"
      by (cases "add_buffers D (need - cur) f1 s") auto
    have n: "nat (int need - int cur) = need - cur" by simp
    have lp: "OptimiseFilters_loop D (k # ks) bn lf s =
          (if \<not> ok2 then Some (False, put_filter k f2 s2)
           else OptimiseFilters_loop D ks (numInputs f2) False (put_filter k f2 s2))"
      using d nlf more ab diff
      by (simp add: Let_def f1_def [symmetric] f1(1) n)
    from add_buffers_props [OF ab] f1
    have p: "filters s2 = filters s" "numInputs f2 = numInputs f"
      "outputBuffer f2 = kFrameBufferObject"
      "ok2 \<Longrightarrow> length (frameBuffers f2) = need \<and> length (frameBufferTextures f2) = need"
      using more by auto
    have fs: "filters (put_filter k f2 s2) = (filters s)(k \<mapsto> Some f2)"
      using p(1) by (simp add: put_filter_def)
    have ca: "can_allocate D s2 = can_allocate D s" by (rule add_buffers_keeps [OF ab])
    show ?thesis
    proof (cases ok2)
      case True
      have e: "OptimiseFilters_loop D (k # ks) bn lf s =
               OptimiseFilters_loop D ks (numInputs f) False (put_filter k f2 s2)"
        unfolding lp using True p(2) by simp
      from p(4) [OF True] show ?thesis by (intro fin [OF e fs]) (simp_all add: p ca)
    next
      case False
      have e: "OptimiseFilters_loop D (k # ks) bn lf s = Some (False, put_filter k f2 s2)"
        unfolding lp using False by simp
      show ?thesis
      proof (intro disjI1 exI conjI)
        show "OptimiseFilters_loop D (k # ks) bn lf s = Some (False, put_filter k f2 s2)"
          by (rule e)
        show "filters (put_filter k f2 s2) = (filters s)(k \<mapsto> Some f2)" by (rule fs)
        show "numInputs f2 = numInputs f" by (rule p(2))
        show "\<not> lf" by (rule nlf)
        show "\<not> can_allocate D s"
          using add_buffers_granted [of D s "need - cur" f1] ab False by auto
      qed
    qed
  next
    case less
    have n: "nat (int cur - int need) = cur - need" by simp
    have "cur - need \<le> length (frameBuffers f1)"
      "length (frameBuffers f1) = length (frameBufferTextures f1)"
      using f1 by simp_all
    from remove_buffers_props [OF this, of "gl_context s"] f1
    obtain f2 g2 where rb: "remove_buffers (cur - need) f1 (gl_context s) = Some (f2, g2)"
      and p: "length (frameBuffers f2) = need" "length (frameBufferTextures f2) = need"
        "numInputs f2 = numInputs f" "outputBuffer f2 = kFrameBufferObject"
      using less by auto
    have lp: "OptimiseFilters_loop D (k # ks) bn lf s =
          OptimiseFilters_loop D ks (numInputs f2) False
            (put_filter k f2 (s\<lparr>gl_context := g2\<rparr>))"
      using d nlf less rb diff
      by (simp add: Let_def f1_def [symmetric] f1(1) n)
    have e: "OptimiseFilters_loop D (k # ks) bn lf s =
          OptimiseFilters_loop D ks (numInputs f) False
            (put_filter k f2 (s\<lparr>gl_context := g2\<rparr>))"
      unfolding lp p(3) ..
    have fs: "filters (put_filter k f2 (s\<lparr>gl_context := g2\<rparr>)) = (filters s)(k \<mapsto> Some f2)"
      by (simp add: put_filter_def)
    have ca: "can_allocate D (put_filter k f2 (s\<lparr>gl_context := g2\<rparr>)) = can_allocate D s"
      using remove_buffers_create_ok [OF rb]
      by (simp add: can_allocate_def has_feature_def put_filter_def)
    show ?thesis by (rule fin [OF e fs p ca])
  next
    case same
    have lp: "OptimiseFilters_loop D (k # ks) bn lf s =
          OptimiseFilters_loop D ks (numInputs f1) False (put_filter k f1 s)"
      using d nlf same diff
      by (simp add: Let_def f1_def [symmetric] f1(1))
    have e: "OptimiseFilters_loop D (k # ks) bn lf s =
          OptimiseFilters_loop D ks (numInputs f) False (put_filter k f1 s)"
      unfolding lp f1(3) ..
    have fs: "filters (put_filter k f1 s) = (filters s)(k \<mapsto> Some f1)"
      by (simp add: put_filter_def)
    show ?thesis by (rule fin [OF e fs]) (simp_all add: f1 same)
  qed
qed

lemma deref_upd [simp]:
  "deref (m(k \<mapsto> Some f)) k' = (if k' = k then Some f else deref m k')"
  by (simp add: deref_def)

lemma loop_inv:
  assumes "distinct ks"
    and "\<forall>k\<in>set ks. \<exists>f. deref (filters s) k = Some f \<and> sizes_ok f"
    and "unat bn < 2 ^ 31"
  shows "\<exists>ok s'. OptimiseFilters_loop D ks bn lf s = Some (ok, s') \<and>
           (\<forall>k. k \<notin> set ks \<longrightarrow> filters s' k = filters s k) \<and>
           (\<forall>k\<in>set ks. \<exists>f. deref (filters s') k = Some f \<and> (ok \<longrightarrow> sizes_ok f)) \<and>
           (ok \<longrightarrow> rev_ok bn lf (map (\<lambda>k. the (deref (filters s') k)) ks))"
  using assms
proof (induction ks arbitrary: bn lf s)
  case Nil
  then show ?case by auto
next
  case (Cons k ks)
  from Cons.prems obtain f where f: "deref (filters s) k = Some f" "sizes_ok f" by auto
  from Cons.prems have kn: "k \<notin> set ks" and dk: "distinct ks" by auto
  from Cons.prems have rest: "\<forall>k'\<in>set ks. \<exists>f. deref (filters s) k' = Some f \<and> sizes_ok f"
    by auto
  from loop_step [OF f Cons.prems(3), of D ks lf]
  show ?case
  proof (elim disjE exE conjE)
    fix f2 s1
    assume fail: "OptimiseFilters_loop D (k # ks) bn lf s = Some (False, s1)"
      "filters s1 = (filters s)(k \<mapsto> Some f2)" "numInputs f2 = numInputs f"
    have a: "\<forall>k'. k' \<notin> set (k # ks) \<longrightarrow> filters s1 k' = filters s k'"
      using fail(2) by simp
    have b: "\<forall>k'\<in>set (k # ks). \<exists>f. deref (filters s1) k' = Some f"
    proof
      fix k' assume "k' \<in> set (k # ks)"
      then consider "k' = k" | "k' \<in> set ks" "k' \<noteq> k" using kn by auto
      then show "\<exists>f. deref (filters s1) k' = Some f"
      proof cases
        case 1
        then show ?thesis using fail(2) by simp
      next
        case 2
        with rest obtain f' where "deref (filters s) k' = Some f'" by auto
        then show ?thesis using fail(2) 2 by simp
      qed
    qed
    show ?thesis
    proof (intro exI conjI)
      show "OptimiseFilters_loop D (k # ks) bn lf s = Some (False, s1)" by (rule fail(1))
      show "\<forall>k'. k' \<notin> set (k # ks) \<longrightarrow> filters s1 k' = filters s k'" by (rule a)
      show "\<forall>k'\<in>set (k # ks). \<exists>f. deref (filters s1) k' = Some f \<and> (False \<longrightarrow> sizes_ok f)"
        using b by simp
      show "False \<longrightarrow> rev_ok bn lf (map (\<lambda>k. the (deref (filters s1) k)) (k # ks))" by simp
    qed
  next
    fix f2 s1
    assume go: "OptimiseFilters_loop D (k # ks) bn lf s =
        OptimiseFilters_loop D ks (numInputs f) False s1"
      "filters s1 = (filters s)(k \<mapsto> Some f2)" "head_ok bn lf f2"
      "numInputs f2 = numInputs f" "sizes_ok f2"
      "lf \<longrightarrow> frameBuffers f2 = frameBuffers f"
    have r1: "\<forall>k'\<in>set ks. \<exists>f. deref (filters s1) k' = Some f \<and> sizes_ok f"
    proof
      fix k' assume k': "k' \<in> set ks"
      then have "k' \<noteq> k" using kn by auto
      then show "\<exists>f. deref (filters s1) k' = Some f \<and> sizes_ok f"
        using rest k' go(2) by simp
    qed
    have b1: "unat (numInputs f) < 2 ^ 31" using f(2) by (simp add: sizes_ok_def)
    from Cons.IH [OF dk r1 b1, of False]
    obtain ok s' where ih: "OptimiseFilters_loop D ks (numInputs f) False s1 = Some (ok, s')"
      "\<forall>k. k \<notin> set ks \<longrightarrow> filters s' k = filters s1 k"
      "\<forall>k\<in>set ks. \<exists>f. deref (filters s') k = Some f \<and> (ok \<longrightarrow> sizes_ok f)"
      "ok \<longrightarrow> rev_ok (numInputs f) False (map (\<lambda>k. the (deref (filters s') k)) ks)"
      by (elim exE conjE)
    have fk: "filters s' k = Some (Some f2)" using ih(2) kn go(2) by simp
    then have dk2: "deref (filters s') k = Some f2" by (simp add: deref_def)
    have 1: "OptimiseFilters_loop D (k # ks) bn lf s = Some (ok, s')" using go(1) ih(1) by simp
    have 2: "\<forall>k'. k' \<notin> set (k # ks) \<longrightarrow> filters s' k' = filters s k'"
      using ih(2) go(2) by simp
    have 3: "\<forall>k'\<in>set (k # ks). \<exists>f. deref (filters s') k' = Some f \<and> (ok \<longrightarrow> sizes_ok f)"
      using ih(3) dk2 go(5) by simp
    have 4: "ok \<longrightarrow> rev_ok bn lf (map (\<lambda>k. the (deref (filters s') k)) (k # ks))"
      using ih(4) dk2 go(3,4) by simp
    show ?thesis
    proof (intro exI conjI)
      show "OptimiseFilters_loop D (k # ks) bn lf s = Some (ok, s')" by (rule 1)
    qed (rule 2, rule 3, rule 4)
  qed
qed

lemma SetFiltering_loop_some:
  "\<forall>k\<in>set ks. deref m k \<noteq> None \<Longrightarrow> \<exists>g'. SetFiltering_loop ks n m g = Some g'"
  by (induction ks arbitrary: n g) auto

lemma SetFiltering_some:
  assumes "\<forall>k\<in>set (map_keys (filters s)). deref (filters s) k \<noteq> None"
  shows "\<exists>g. SetFiltering s = Some (s\<lparr>gl_context := g\<rparr>)"
proof -
  have "\<forall>k\<in>set (rev (map_keys (filters s))). deref (filters s) k \<noteq> None"
    using assms by simp
  from SetFiltering_loop_some [OF this, of 0
      "SetTextureFilters (inputTextures s) GL_NEAREST GL_CLAMP_TO_EDGE (gl_context s)"]
  obtain g' where "SetFiltering_loop (rev (map_keys (filters s))) 0 (filters s)
      (SetTextureFilters (inputTextures s) GL_NEAREST GL_CLAMP_TO_EDGE (gl_context s)) = Some g'"
    by blast
  then show ?thesis by (auto simp: SetFiltering_def)
qed



lemma map_keys_distinct: "distinct (map_keys m)"
  by (simp add: map_keys_def filter_order_def)

lemma map_keys_iff: "k \<in> set (map_keys m) \<longleftrightarrow> m k \<noteq> None"
  by (cases k) (auto simp: map_keys_def filter_order_def)

lemma map_keys_cong: "(\<And>k. (m k = None) = (m' k = None)) \<Longrightarrow> map_keys m = map_keys m'"
  by (simp add: map_keys_def)




subsection \<open>Removing a stage\<close>

lemma DeleteTextures_loop_live:
  "live_textures (DeleteTextures_loop ts g) = filter (\<lambda>h. h \<notin> set ts) (live_textures g) \<and>
   live_framebuffers (DeleteTextures_loop ts g) = live_framebuffers g \<and>
   live_programs (DeleteTextures_loop ts g) = live_programs g"
  by (induction ts arbitrary: g) (auto simp: DeleteTexture_def removeAll_filter_not_eq intro: filter_cong)

lemma DeleteFrameBuffers_loop_live:
  "live_framebuffers (DeleteFrameBuffers_loop ts g) = filter (\<lambda>h. h \<notin> set ts) (live_framebuffers g) \<and>
   live_textures (DeleteFrameBuffers_loop ts g) = live_textures g \<and>
   live_programs (DeleteFrameBuffers_loop ts g) = live_programs g"
  by (induction ts arbitrary: g) (auto simp: DeleteFrameBuffer_def removeAll_filter_not_eq intro: filter_cong)

lemma DeleteFragmentPrograms_loop_live:
  "live_programs (DeleteFragmentPrograms_loop ts g) = filter (\<lambda>p. fst p \<notin> set ts) (live_programs g) \<and>
   live_textures (DeleteFragmentPrograms_loop ts g) = live_textures g \<and>
   live_framebuffers (DeleteFragmentPrograms_loop ts g) = live_framebuffers g"
  by (induction ts arbitrary: g) (auto simp: DeleteFragmentProgram_def intro: filter_cong)

text \<open>
  C3, as amended. For every stage type \<open>T\<close> whose stage \<open>f\<close> is in the graph,
  RemoveFilter returns, none of the fragment programs, frame buffers and textures of
  \<open>f\<close> is live afterwards, and the key \<open>T\<close> stays in the map, now holding the null
  pointer; the entry is gone only after the \<open>erase\<close> that every caller performs next.
  The other entries are untouched.
\<close>

theorem RemoveFilter_destroys_and_nulls:
  assumes "deref (filters s) T = Some f"
  shows "\<exists>s'. RemoveFilter T s = Some s' \<and>
           filters s' T = Some None \<and> count_key (filters s') T \<and>
           \<not> count_key (filters (erase T s')) T \<and>
           (\<forall>k. k \<noteq> T \<longrightarrow> filters s' k = filters s k \<and> filters (erase T s') k = filters s k) \<and>
           fst ` set (live_programs (gl_context s')) \<inter> set (fragmentPrograms f) = {} \<and>
           set (live_framebuffers (gl_context s')) \<inter> set (frameBuffers f) = {} \<and>
           set (live_textures (gl_context s')) \<inter> set (frameBufferTextures f) = {}"
proof -
  have c: "count_key (filters s) T"
    using assms by (auto simp: count_key_def deref_def split: option.splits)
  show ?thesis
    using assms c
    by (auto simp: RemoveFilter_def Let_def count_key_def erase_def DeleteTextures_loop_live
        DeleteFrameBuffers_loop_live DeleteFragmentPrograms_loop_live)
qed


lemma scaled_convert: "deref (filters scaled) kGLFilterYUV2RGB = Some convert_stage_fbo"
  by (simp add: scaled_def deref_def)

lemma scaled_RemoveFilter:
  "RemoveFilter kGLFilterYUV2RGB scaled =
     Some (scaled\<lparr>gl_context := ctx0\<lparr>live_textures := [1, 2, 3], live_framebuffers := [],
                                        live_programs := []\<rparr>,
                  filters := (\<lambda>k. if k = kGLFilterYUV2RGB then Some None
                                   else if k = kGLFilterResize then Some (Some resize_stage)
                                   else None)\<rparr>)"
  by (simp add: RemoveFilter_def count_key_def scaled_convert Let_def)
     (simp add: scaled_def video0_def ctx0_def convert_stage_fbo_def convert_stage_def
        DeleteFragmentProgram_def DeleteFrameBuffer_def DeleteTexture_def fun_eq_iff)

text \<open>
  The claim as stated fails at the last step: after RemoveFilter alone the map still
  has an entry for the stage type.
\<close>

theorem RemoveFilter_keeps_null_entry:
  "count_key (filters scaled) kGLFilterYUV2RGB \<and>
   RemoveFilter kGLFilterYUV2RGB scaled \<noteq> None \<and>
   count_key (filters (the (RemoveFilter kGLFilterYUV2RGB scaled))) kGLFilterYUV2RGB"
  by (simp add: scaled_RemoveFilter count_key_def) (simp add: scaled_def)

theorem RemoveFilter_destroys_and_nulls_witness:
  "deref (filters scaled) kGLFilterYUV2RGB = Some convert_stage_fbo \<and>
   (\<exists>s'. RemoveFilter kGLFilterYUV2RGB scaled = Some s' \<and>
         filters s' kGLFilterYUV2RGB = Some None \<and>
         live_programs (gl_context s') = [] \<and> live_framebuffers (gl_context s') = [] \<and>
         live_textures (gl_context s') = [1, 2, 3] \<and>
         \<not> count_key (filters (erase kGLFilterYUV2RGB s')) kGLFilterYUV2RGB)"
  using RemoveFilter_destroys_and_nulls [OF scaled_convert] scaled_convert
  by (simp add: scaled_RemoveFilter)



subsection \<open>Adding and then removing a stage\<close>













lemma graph_ok_iff:
  "graph_ok s \<longleftrightarrow> (\<forall>k\<in>set (map_keys (filters s)). \<exists>f. deref (filters s) k = Some f \<and> sizes_ok f)"
  by (auto simp: graph_ok_def list_all_iff split: option.splits)





















subsection \<open>Reconciliation after a sequence of calls\<close>


lemma OptimiseFilters_keys:
  assumes "graph_ok s"
  shows "\<exists>ok s'. OptimiseFilters D s = Some (ok, s') \<and>
           map_keys (filters s') = map_keys (filters s) \<and>
           (\<forall>k\<in>set (map_keys (filters s)). deref (filters s') k \<noteq> None)"
proof -
  let ?ks = "rev (map_keys (filters s))"
  have gk: "\<forall>k\<in>set ?ks. \<exists>f. deref (filters s) k = Some f \<and> sizes_ok f"
    using assms by (simp add: graph_ok_iff)
  have d: "distinct ?ks" by (simp add: map_keys_distinct)
  have one: "unat (1 :: 32 word) < 2 ^ 31" by simp
  from loop_inv [OF d gk one, of D True]
  obtain ok s1 where l: "OptimiseFilters_loop D ?ks 1 True s = Some (ok, s1)"
    "\<forall>k. k \<notin> set ?ks \<longrightarrow> filters s1 k = filters s k"
    "\<forall>k\<in>set ?ks. \<exists>f. deref (filters s1) k = Some f \<and> (ok \<longrightarrow> sizes_ok f)"
    by blast
  have keys: "map_keys (filters s1) = map_keys (filters s)"
  proof (rule map_keys_cong)
    fix k
    show "(filters s1 k = None) = (filters s k = None)"
    proof (cases "k \<in> set ?ks")
      case True
      then have "filters s k \<noteq> None" by (simp add: map_keys_iff)
      moreover from True l(3) have "filters s1 k \<noteq> None"
        by (auto simp: deref_def split: option.splits)
      ultimately show ?thesis by auto
    next
      case False
      then show ?thesis using l(2) by simp
    qed
  qed
  have nn: "\<forall>k\<in>set (map_keys (filters s1)). deref (filters s1) k \<noteq> None"
    using l(3) keys by auto
  show ?thesis
  proof (cases ok)
    case False
    then show ?thesis using l(1) keys nn by (auto simp: OptimiseFilters_def)
  next
    case True
    from SetFiltering_some [OF nn] obtain g2 where
      "SetFiltering s1 = Some (s1\<lparr>gl_context := g2\<rparr>)" by blast
    then show ?thesis using l(1) keys nn True by (auto simp: OptimiseFilters_def)
  qed
qed




lemma DeleteTextures_loop_create_ok: "create_ok (DeleteTextures_loop ts g) = create_ok g"
  by (induction ts arbitrary: g) (simp_all add: DeleteTexture_def)

lemma DeleteFrameBuffers_loop_create_ok: "create_ok (DeleteFrameBuffers_loop ts g) = create_ok g"
  by (induction ts arbitrary: g) (simp_all add: DeleteFrameBuffer_def)

lemma DeleteFragmentPrograms_loop_create_ok:
  "create_ok (DeleteFragmentPrograms_loop ts g) = create_ok g"
  by (induction ts arbitrary: g) (simp_all add: DeleteFragmentProgram_def)






















end
